theory Spec2Isabelle
  imports Main "HOL-Library.Word"
begin

section \<open>Go values: errors, nil pointers, formatting\<close>

text \<open>
  A Go \<open>error\<close> value. \<open>Sentinel s\<close> is a package-level \<open>errors.New\<close> value,
  \<open>External m\<close> an error produced by a library outside the repository (only its
  message is kept), \<open>Errorf pre e post\<close> is \<open>fmt.Errorf(pre + "%w" + post, e)\<close> and
  \<open>Errorf2 e1 sep e2\<close> is \<open>fmt.Errorf("%w" + sep + "%w", e1, e2)\<close>.
\<close>

datatype 's error =
    Sentinel 's
  | External string
  | Errorf string "'s error" string
  | Errorf2 "'s error" string "'s error"

text \<open>The \<open>Error()\<close> method, given the text of every sentinel.\<close>

fun Error :: "('s \<Rightarrow> string) \<Rightarrow> 's error \<Rightarrow> string" where
  "Error txt (Sentinel s) = txt s"
| "Error txt (External m) = m"
| "Error txt (Errorf pre e post) = pre @ Error txt e @ post"
| "Error txt (Errorf2 e1 sep e2) = Error txt e1 @ sep @ Error txt e2"

text \<open>\<open>errors.Is(err, sentinel)\<close>: the sentinel occurs in the chain of wrapped errors.\<close>

fun errors_Is :: "'s error \<Rightarrow> 's \<Rightarrow> bool" where
  "errors_Is (Sentinel t) s = (t = s)"
| "errors_Is (External m) s = False"
| "errors_Is (Errorf pre e post) s = errors_Is e s"
| "errors_Is (Errorf2 e1 sep e2) s = (errors_Is e1 s \<or> errors_Is e2 s)"

text \<open>
  A call either panics on a nil pointer dereference or returns. Pointers are
  \<open>'a option\<close> (\<open>None\<close> is nil), a slice is \<open>'a list option\<close> (\<open>None\<close> is the nil
  slice, \<open>Some []\<close> an empty non-nil one).
\<close>

datatype 'a outcome = NilDeref | Return 'a

text \<open>\<open>%d\<close> of a non-negative integer, and of an \<open>int\<close>.\<close>

definition digit :: "nat \<Rightarrow> char" where
  "digit d = ''0123456789'' ! d"

fun show_nat :: "nat \<Rightarrow> string" where
  "show_nat n = (if n < 10 then [digit n] else show_nat (n div 10) @ [digit (n mod 10)])"

declare show_nat.simps [simp del]

definition show_int :: "int \<Rightarrow> string" where
  "show_int i = (if i < 0 then CHR ''-'' # show_nat (nat (- i)) else show_nat (nat i))"

text \<open>\<open>%s\<close> of a \<open>[]string\<close>: the elements separated by one space, in brackets.\<close>

fun join :: "string \<Rightarrow> string list \<Rightarrow> string" where
  "join sep [] = []"
| "join sep [x] = x"
| "join sep (x # y # ys) = x @ sep @ join sep (y # ys)"

definition show_strings :: "string list \<Rightarrow> string" where
  "show_strings xs = ''['' @ join '' '' xs @ '']''"

section \<open>The helpers of the gosettings library\<close>

text \<open>
  Modelled from the spec: the generic helpers \<open>gosettings.MergeWithString\<close>,
  \<open>MergeWithPointer\<close>, \<open>MergeWithSlice\<close>, \<open>DefaultString\<close> and \<open>DefaultPointer\<close>
  are an imported library and not part of the sources. The spec describes them: merging
  takes the other operand's value where the receiver's value is absent (the empty string,
  the nil pointer, the nil slice) and leaves a present value alone; defaulting assigns the
  default where the value is still absent.
\<close>

definition MergeWithString :: "string \<Rightarrow> string \<Rightarrow> string" where
  "MergeWithString existing other = (if existing \<noteq> [] then existing else other)"

definition MergeWithPointer :: "'a option \<Rightarrow> 'a option \<Rightarrow> 'a option" where
  "MergeWithPointer existing other = (if existing \<noteq> None then existing else other)"

definition MergeWithSlice :: "'a list option \<Rightarrow> 'a list option \<Rightarrow> 'a list option" where
  "MergeWithSlice existing other = (if existing \<noteq> None then existing else other)"

definition DefaultString :: "string \<Rightarrow> string \<Rightarrow> string" where
  "DefaultString existing defaultValue = (if existing \<noteq> [] then existing else defaultValue)"

definition DefaultPointer :: "'a option \<Rightarrow> 'a \<Rightarrow> 'a option" where
  "DefaultPointer existing defaultValue =
     (if existing \<noteq> None then existing else Some defaultValue)"

section \<open>Constants of other packages of the repository\<close>

text \<open>
  Modelled from the spec: the constants of \<open>internal/constants/openvpn\<close>,
  \<open>internal/constants/providers\<close> and of the Private Internet Access presets are
  not part of the sources. The spec gives the versions 2.5 and 2.6 and the provider name
  "custom"; the other provider names are lower-case names of the providers.
\<close>

definition openvpn_Openvpn25 :: string where "openvpn_Openvpn25 = ''2.5''"
definition openvpn_Openvpn26 :: string where "openvpn_Openvpn26 = ''2.6''"
definition presets_Strong :: string where "presets_Strong = ''strong''"

definition providers_Airvpn :: string where "providers_Airvpn = ''airvpn''"
definition providers_Custom :: string where "providers_Custom = ''custom''"
definition providers_Cyberghost :: string where "providers_Cyberghost = ''cyberghost''"
definition providers_Ivpn :: string where "providers_Ivpn = ''ivpn''"
definition providers_Mullvad :: string where "providers_Mullvad = ''mullvad''"
definition providers_PrivateInternetAccess :: string where
  "providers_PrivateInternetAccess = ''private internet access''"
definition providers_VPNSecure :: string where "providers_VPNSecure = ''vpnsecure''"
definition providers_VPNUnlimited :: string where "providers_VPNUnlimited = ''vpn unlimited''"
definition providers_Wevpn :: string where "providers_Wevpn = ''wevpn''"

section \<open>OpenVPN settings\<close>

record OpenVPN =
  Version :: string
  User :: "string option"
  Password :: "string option"
  ConfFile :: "string option"
  Ciphers :: "string list option"
  Auth :: "string option"
  Cert :: "string option"
  Key :: "string option"
  EncryptedKey :: "string option"
  KeyPassphrase :: "string option"
  PIAEncPreset :: "string option"
  MSSFix :: "16 word option"
  Interface :: string
  ProcessUser :: string
  Verbosity :: "int option"
  Flags :: "string list option"

text \<open>The zero value \<open>OpenVPN{}\<close>.\<close>

definition OpenVPN_zero :: OpenVPN where
  "OpenVPN_zero =
     \<lparr> Version = [], User = None, Password = None, ConfFile = None, Ciphers = None,
       Auth = None, Cert = None, Key = None, EncryptedKey = None, KeyPassphrase = None,
       PIAEncPreset = None, MSSFix = None, Interface = [], ProcessUser = [],
       Verbosity = None, Flags = None \<rparr>"

subsection \<open>mergeWith and setDefaults\<close>

text \<open>The receiver is mutated in place; the model returns the new receiver.\<close>

definition mergeWith :: "OpenVPN \<Rightarrow> OpenVPN \<Rightarrow> OpenVPN" where
  "mergeWith o' other =
     \<lparr> Version = MergeWithString (Version o') (Version other),
       User = MergeWithPointer (User o') (User other),
       Password = MergeWithPointer (Password o') (Password other),
       ConfFile = MergeWithPointer (ConfFile o') (ConfFile other),
       Ciphers = MergeWithSlice (Ciphers o') (Ciphers other),
       Auth = MergeWithPointer (Auth o') (Auth other),
       Cert = MergeWithPointer (Cert o') (Cert other),
       Key = MergeWithPointer (Key o') (Key other),
       EncryptedKey = MergeWithPointer (EncryptedKey o') (EncryptedKey other),
       KeyPassphrase = MergeWithPointer (KeyPassphrase o') (KeyPassphrase other),
       PIAEncPreset = MergeWithPointer (PIAEncPreset o') (PIAEncPreset other),
       MSSFix = MergeWithPointer (MSSFix o') (MSSFix other),
       Interface = MergeWithString (Interface o') (Interface other),
       ProcessUser = MergeWithString (ProcessUser o') (ProcessUser other),
       Verbosity = MergeWithPointer (Verbosity o') (Verbosity other),
       Flags = MergeWithSlice (Flags o') (Flags other) \<rparr>"

definition setDefaults :: "string \<Rightarrow> OpenVPN \<Rightarrow> OpenVPN" where
  "setDefaults vpnProvider o' =
     o' \<lparr> Version := DefaultString (Version o') openvpn_Openvpn25,
          User := DefaultPointer (User o') [],
          Password :=
            (if vpnProvider = providers_Mullvad then DefaultPointer (Password o') ''m''
             else DefaultPointer (Password o') []),
          ConfFile := DefaultPointer (ConfFile o') [],
          Auth := DefaultPointer (Auth o') [],
          Cert := DefaultPointer (Cert o') [],
          Key := DefaultPointer (Key o') [],
          EncryptedKey := DefaultPointer (EncryptedKey o') [],
          KeyPassphrase := DefaultPointer (KeyPassphrase o') [],
          PIAEncPreset :=
            DefaultPointer (PIAEncPreset o')
              (if vpnProvider = providers_PrivateInternetAccess then presets_Strong else []),
          MSSFix := DefaultPointer (MSSFix o') 0,
          Interface := DefaultString (Interface o') ''tun0'',
          ProcessUser := DefaultString (ProcessUser o') ''root'',
          Verbosity := DefaultPointer (Verbosity o') 1 \<rparr>"

subsection \<open>validate\<close>

datatype sentinel =
    ErrOpenVPNVersionIsNotValid
  | ErrOpenVPNUserIsEmpty
  | ErrOpenVPNPasswordIsEmpty
  | ErrFilepathMissing
  | ErrMissingValue
  | ErrOpenVPNKeyPassphraseIsEmpty
  | ErrOpenVPNMSSFixIsTooHigh
  | ErrOpenVPNInterfaceNotValid
  | ErrOpenVPNVerbosityIsOutOfBounds

text \<open>
  What \<open>validate\<close> calls outside the sources, taken as parameters: the message of the
  error of \<open>validate.IsOneOf\<close>, the standard library's
  \<open>base64.StdEncoding.DecodeString\<close>, \<open>validate.FileExists\<close> and the extractor's
  \<open>Data\<close> (each gives \<open>None\<close> on success and the error's message otherwise), the
  package variable \<open>regexpInterfaceName\<close> (its matcher and its source text), and the
  address stored in the pointer \<open>o.Verbosity\<close>, which \<open>%d\<close> prints when it is given
  the pointer itself. The last parameter belongs to \<open>gosettings.ObfuscateKey\<close>, which
  \<open>toLinesNode\<close> calls: for a non-empty key, \<open>None\<close> when the library only says that
  the key is set, and otherwise how many characters of the start and of the end of the key
  it shows (the library decides this from an estimate, in floating point, of the entropy
  of the key).
\<close>

record deps =
  IsOneOf_Error :: "string \<Rightarrow> string list \<Rightarrow> string"
  DecodeString :: "string \<Rightarrow> string option"
  FileExists :: "string \<Rightarrow> string option"
  extract_Data :: "string \<Rightarrow> string option"
  regexpInterfaceName_MatchString :: "string \<Rightarrow> bool"
  regexpInterfaceName_String :: string
  Verbosity_address :: nat
  ObfuscateKey_shown :: "string \<Rightarrow> (nat \<times> nat) option"

text \<open>
  \<open>ivpnAccountID\<close> is \<open>^(i|ivpn)\-[a-zA-Z0-9]{4}\-[a-zA-Z0-9]{4}\-[a-zA-Z0-9]{4}$\<close>;
  in Go, \<open>$\<close> matches at the end of the text only.
\<close>

definition alnum :: "char \<Rightarrow> bool" where
  "alnum c =
     (let n = (of_char c :: nat)
      in (97 \<le> n \<and> n \<le> 122) \<or> (65 \<le> n \<and> n \<le> 90) \<or> (48 \<le> n \<and> n \<le> 57))"

fun dash_group :: "string \<Rightarrow> string option" where
  "dash_group (d # a # b # c # e # rest) =
     (if d = CHR ''-'' \<and> alnum a \<and> alnum b \<and> alnum c \<and> alnum e then Some rest else None)"
| "dash_group _ = None"

definition three_groups :: "string \<Rightarrow> bool" where
  "three_groups s =
     (case dash_group s of None \<Rightarrow> False
      | Some r1 \<Rightarrow>
          (case dash_group r1 of None \<Rightarrow> False
           | Some r2 \<Rightarrow> (case dash_group r2 of None \<Rightarrow> False | Some r3 \<Rightarrow> r3 = [])))"

definition ivpnAccountID_MatchString :: "string \<Rightarrow> bool" where
  "ivpnAccountID_MatchString s =
     ((take 1 s = ''i'' \<and> three_groups (drop 1 s)) \<or>
      (take 4 s = ''ivpn'' \<and> three_groups (drop 4 s)))"

definition deref :: "'a option \<Rightarrow> ('a \<Rightarrow> 'b outcome) \<Rightarrow> 'b outcome" where
  "deref p k = (case p of None \<Rightarrow> NilDeref | Some v \<Rightarrow> k v)"

definition and_then :: "'a outcome \<Rightarrow> ('a \<Rightarrow> 'b outcome) \<Rightarrow> 'b outcome" where
  "and_then r k = (case r of NilDeref \<Rightarrow> NilDeref | Return v \<Rightarrow> k v)"

text \<open>
  The body of a function that is a sequence of checks, each returning early with its
  error: the checks run in order up to the first one that returns an error or panics.
\<close>

fun first_return :: "'s error option outcome list \<Rightarrow> 's error option outcome" where
  "first_return [] = Return None"
| "first_return (c # cs) = (case c of Return None \<Rightarrow> first_return cs | _ \<Rightarrow> c)"

definition validateOpenVPNConfigFilepath :: "deps \<Rightarrow> bool \<Rightarrow> string \<Rightarrow> sentinel error option" where
  "validateOpenVPNConfigFilepath d isCustom confFile =
     (if \<not> isCustom then None
      else if confFile = [] then Some (Errorf [] (Sentinel ErrFilepathMissing) [])
      else (case FileExists d confFile of
              Some m \<Rightarrow> Some (External m)
            | None \<Rightarrow>
                (case extract_Data d confFile of
                   Some m \<Rightarrow>
                     Some (Errorf ''extracting information from custom configuration file: ''
                             (External m) [])
                 | None \<Rightarrow> None)))"

definition validateOpenVPNClientCertificate :: "deps \<Rightarrow> string \<Rightarrow> string \<Rightarrow> sentinel error option" where
  "validateOpenVPNClientCertificate d vpnProvider clientCert =
     (if vpnProvider \<in> set [providers_Airvpn, providers_Cyberghost, providers_VPNSecure,
                             providers_VPNUnlimited] \<and> clientCert = []
      then Some (Errorf [] (Sentinel ErrMissingValue) [])
      else if clientCert = [] then None
      else (case DecodeString d clientCert of Some m \<Rightarrow> Some (External m) | None \<Rightarrow> None))"

definition validateOpenVPNClientKey :: "deps \<Rightarrow> string \<Rightarrow> string \<Rightarrow> sentinel error option" where
  "validateOpenVPNClientKey d vpnProvider clientKey =
     (if vpnProvider \<in> set [providers_Airvpn, providers_Cyberghost, providers_VPNUnlimited,
                             providers_Wevpn] \<and> clientKey = []
      then Some (Errorf [] (Sentinel ErrMissingValue) [])
      else if clientKey = [] then None
      else (case DecodeString d clientKey of Some m \<Rightarrow> Some (External m) | None \<Rightarrow> None))"

definition validateOpenVPNEncryptedKey :: "deps \<Rightarrow> string \<Rightarrow> string \<Rightarrow> sentinel error option" where
  "validateOpenVPNEncryptedKey d vpnProvider encryptedPrivateKey =
     (if vpnProvider = providers_VPNSecure \<and> encryptedPrivateKey = []
      then Some (Errorf [] (Sentinel ErrMissingValue) [])
      else if encryptedPrivateKey = [] then None
      else (case DecodeString d encryptedPrivateKey of
              Some m \<Rightarrow> Some (External m) | None \<Rightarrow> None))"

definition isCustom :: "string \<Rightarrow> bool" where
  "isCustom vpnProvider = (vpnProvider = providers_Custom)"

definition isUserRequired :: "string \<Rightarrow> bool" where
  "isUserRequired vpnProvider =
     (\<not> isCustom vpnProvider \<and> vpnProvider \<noteq> providers_Airvpn \<and>
      vpnProvider \<noteq> providers_VPNSecure)"

text \<open>
  \<open>isUserRequired && (vpnProvider != providers.Ivpn || !ivpnAccountID.MatchString(*o.User))\<close>:
  the pointer is read only where the operators \<open>&&\<close> and \<open>||\<close> evaluate their right
  operand.
\<close>

definition passwordRequired :: "string \<Rightarrow> OpenVPN \<Rightarrow> bool outcome" where
  "passwordRequired vpnProvider o' =
     (if isUserRequired vpnProvider
      then (if vpnProvider \<noteq> providers_Ivpn then Return True
            else deref (User o') (\<lambda>u. Return (\<not> ivpnAccountID_MatchString u)))
      else Return False)"

definition wrapped :: "string \<Rightarrow> sentinel error option \<Rightarrow> sentinel error option outcome" where
  "wrapped pre err =
     (case err of None \<Rightarrow> Return None | Some e \<Rightarrow> Return (Some (Errorf pre e [])))"

definition maxMSSFix :: nat where "maxMSSFix = 10000"

text \<open>
  The statements of \<open>validate\<close>, one definition for each check in the order of the
  source: a check returns \<open>Return (Some err)\<close> where the source returns the error,
  \<open>Return None\<close> where it goes on to the next statement, and \<open>NilDeref\<close> where it
  reads a nil pointer.
\<close>

text \<open>
  Modelled from the spec: \<open>validate.IsOneOf\<close> is an imported library function; the
  value has to be one of the choices.
\<close>

definition IsOneOf :: "deps \<Rightarrow> string \<Rightarrow> string list \<Rightarrow> 's error option" where
  "IsOneOf d v choices =
     (if v \<in> set choices then None else Some (External (IsOneOf_Error d v choices)))"

definition validate_Version :: "deps \<Rightarrow> OpenVPN \<Rightarrow> sentinel error option outcome" where
  "validate_Version d o' =
     (case IsOneOf d (Version o') [openvpn_Openvpn25, openvpn_Openvpn26] of
        Some err \<Rightarrow> Return (Some (Errorf2 (Sentinel ErrOpenVPNVersionIsNotValid) '': '' err))
      | None \<Rightarrow> Return None)"

definition validate_User :: "string \<Rightarrow> OpenVPN \<Rightarrow> sentinel error option outcome" where
  "validate_User vpnProvider o' =
     (if isUserRequired vpnProvider
      then deref (User o') (\<lambda>u.
             if u = [] then Return (Some (Errorf [] (Sentinel ErrOpenVPNUserIsEmpty) []))
             else Return None)
      else Return None)"

definition validate_Password :: "string \<Rightarrow> OpenVPN \<Rightarrow> sentinel error option outcome" where
  "validate_Password vpnProvider o' =
     and_then (passwordRequired vpnProvider o') (\<lambda>required.
       if required
       then deref (Password o') (\<lambda>p.
              if p = [] then Return (Some (Errorf [] (Sentinel ErrOpenVPNPasswordIsEmpty) []))
              else Return None)
       else Return None)"

definition validate_ConfFile :: "deps \<Rightarrow> string \<Rightarrow> OpenVPN \<Rightarrow> sentinel error option outcome" where
  "validate_ConfFile d vpnProvider o' =
     deref (ConfFile o') (\<lambda>c.
       wrapped ''custom configuration file: ''
         (validateOpenVPNConfigFilepath d (isCustom vpnProvider) c))"

definition validate_Cert :: "deps \<Rightarrow> string \<Rightarrow> OpenVPN \<Rightarrow> sentinel error option outcome" where
  "validate_Cert d vpnProvider o' =
     deref (Cert o') (\<lambda>c.
       wrapped ''client certificate: '' (validateOpenVPNClientCertificate d vpnProvider c))"

definition validate_Key :: "deps \<Rightarrow> string \<Rightarrow> OpenVPN \<Rightarrow> sentinel error option outcome" where
  "validate_Key d vpnProvider o' =
     deref (Key o') (\<lambda>k.
       wrapped ''client key: '' (validateOpenVPNClientKey d vpnProvider k))"

definition validate_EncryptedKey :: "deps \<Rightarrow> string \<Rightarrow> OpenVPN \<Rightarrow> sentinel error option outcome" where
  "validate_EncryptedKey d vpnProvider o' =
     deref (EncryptedKey o') (\<lambda>k.
       wrapped ''encrypted key: '' (validateOpenVPNEncryptedKey d vpnProvider k))"

definition validate_KeyPassphrase :: "OpenVPN \<Rightarrow> sentinel error option outcome" where
  "validate_KeyPassphrase o' =
     deref (EncryptedKey o') (\<lambda>k.
       if k \<noteq> []
       then deref (KeyPassphrase o') (\<lambda>p.
              if p = []
              then Return (Some (Errorf [] (Sentinel ErrOpenVPNKeyPassphraseIsEmpty) []))
              else Return None)
       else Return None)"

definition validate_MSSFix :: "OpenVPN \<Rightarrow> sentinel error option outcome" where
  "validate_MSSFix o' =
     deref (MSSFix o') (\<lambda>m.
       if unat m > maxMSSFix
       then Return (Some (Errorf [] (Sentinel ErrOpenVPNMSSFixIsTooHigh)
              ('': '' @ show_nat (unat m) @ '' is over the maximum value of '' @
               show_nat maxMSSFix)))
       else Return None)"

definition validate_Interface :: "deps \<Rightarrow> OpenVPN \<Rightarrow> sentinel error option outcome" where
  "validate_Interface d o' =
     (if \<not> regexpInterfaceName_MatchString d (Interface o')
      then Return (Some (Errorf [] (Sentinel ErrOpenVPNInterfaceNotValid)
             ('': '' @ [CHR 0x27] @ Interface o' @ [CHR 0x27] @ '' does not match regex '' @
              [CHR 0x27] @ regexpInterfaceName_String d @ [CHR 0x27])))
      else Return None)"

text \<open>
  The message of the last check is formatted with \<open>o.Verbosity\<close>, the pointer, not with
  the integer it points to.
\<close>

definition ErrVerbosity :: "deps \<Rightarrow> sentinel error" where
  "ErrVerbosity d =
     Errorf [] (Sentinel ErrOpenVPNVerbosityIsOutOfBounds)
       ('': '' @ show_nat (Verbosity_address d) @ '' can only be between 0 and 5'')"

definition validate_Verbosity :: "deps \<Rightarrow> OpenVPN \<Rightarrow> sentinel error option outcome" where
  "validate_Verbosity d o' =
     deref (Verbosity o') (\<lambda>v.
       if v < 0 \<or> v > 6 then Return (Some (ErrVerbosity d)) else Return None)"

definition validate :: "deps \<Rightarrow> string \<Rightarrow> OpenVPN \<Rightarrow> sentinel error option outcome" where
  "validate d vpnProvider o' = first_return
     [ validate_Version d o',
       validate_User vpnProvider o',
       validate_Password vpnProvider o',
       validate_ConfFile d vpnProvider o',
       validate_Cert d vpnProvider o',
       validate_Key d vpnProvider o',
       validate_EncryptedKey d vpnProvider o',
       validate_KeyPassphrase o',
       validate_MSSFix o',
       validate_Interface d o',
       validate_Verbosity d o' ]"

subsection \<open>toLinesNode\<close>

text \<open>
  A node of the \<open>gotree\<close> library: a value and child nodes. \<open>Appendf\<close> adds the
  formatted text as a new last child.
\<close>

datatype node = Node string "node list"

definition gotree_New :: "string \<Rightarrow> node" where
  "gotree_New v = Node v []"

fun Appendf :: "node \<Rightarrow> string \<Rightarrow> node" where
  "Appendf (Node v cs) line = Node v (cs @ [Node line []])"


text \<open>
  The statements of \<open>toLinesNode\<close> in order: each appends one line, or none when its
  guard is false, and panics when it reads a nil pointer.
\<close>

fun appends :: "node \<Rightarrow> string option outcome list \<Rightarrow> node outcome" where
  "appends n [] = Return n"
| "appends n (l # ls) =
     (case l of
        NilDeref \<Rightarrow> NilDeref
      | Return None \<Rightarrow> appends n ls
      | Return (Some line) \<Rightarrow> appends (Appendf n line) ls)"

definition len :: "'a list option \<Rightarrow> nat" where
  "len xs = (case xs of None \<Rightarrow> 0 | Some ys \<Rightarrow> length ys)"

definition elems :: "'a list option \<Rightarrow> 'a list" where
  "elems xs = (case xs of None \<Rightarrow> [] | Some ys \<Rightarrow> ys)"

text \<open>
  Modelled from the spec: \<open>gosettings.ObfuscateKey\<close> is an imported library function and
  not part of the sources. The spec says that a secret is rendered as "set"/"not set" or
  as a redacted token of fixed length, never as the underlying value: an empty key is
  rendered as not set, and a non-empty key either as set or as a token made of at most its
  first three characters, three dots and at most its last three characters.
\<close>

definition ObfuscateKey :: "deps \<Rightarrow> string \<Rightarrow> string" where
  "ObfuscateKey d key =
     (if key = [] then ''[not set]''
      else (case ObfuscateKey_shown d key of
              None \<Rightarrow> ''[set]''
            | Some (a, b) \<Rightarrow>
                take (min 3 a) key @ ''...'' @ drop (length key - min 3 b) key))"

definition toLinesNode :: "deps \<Rightarrow> OpenVPN \<Rightarrow> node outcome" where
  "toLinesNode d o' = appends (gotree_New ''OpenVPN settings:'')
     [ Return (Some (''OpenVPN version: '' @ Version o')),
       deref (User o') (\<lambda>u. Return (Some (''User: '' @ ObfuscateKey d u))),
       deref (Password o') (\<lambda>p. Return (Some (''Password: '' @ ObfuscateKey d p))),
       deref (ConfFile o') (\<lambda>c.
         Return (if c \<noteq> [] then Some (''Custom configuration file: '' @ c) else None)),
       Return (if len (Ciphers o') > 0
               then Some (''Ciphers: '' @ show_strings (elems (Ciphers o'))) else None),
       deref (Auth o') (\<lambda>a. Return (if a \<noteq> [] then Some (''Auth: '' @ a) else None)),
       deref (Cert o') (\<lambda>c.
         Return (if c \<noteq> [] then Some (''Client crt: '' @ ObfuscateKey d c) else None)),
       deref (Key o') (\<lambda>k.
         Return (if k \<noteq> [] then Some (''Client key: '' @ ObfuscateKey d k) else None)),
       deref (EncryptedKey o') (\<lambda>k.
         if k \<noteq> []
         then deref (KeyPassphrase o') (\<lambda>p.
                Return (Some (''Encrypted key: '' @ ObfuscateKey d k @ '' (key passhrapse '' @
                              ObfuscateKey d p @ '')'')))
         else Return None),
       deref (PIAEncPreset o') (\<lambda>e.
         Return (if e \<noteq> []
                 then Some (''Private Internet Access encryption preset: '' @ e) else None)),
       deref (MSSFix o') (\<lambda>m.
         Return (if unat m > 0 then Some (''MSS Fix: '' @ show_nat (unat m)) else None)),
       Return (if Interface o' \<noteq> [] then Some (''Network interface: '' @ Interface o')
               else None),
       Return (Some (''Run OpenVPN as: '' @ ProcessUser o')),
       deref (Verbosity o') (\<lambda>v. Return (Some (''Verbosity level: '' @ show_int v))),
       Return (if len (Flags o') > 0
               then Some (''Flags: '' @ show_strings (elems (Flags o'))) else None) ]"



section \<open>Updater settings\<close>

text \<open>\<open>Period\<close> is a \<open>time.Duration\<close>, a count of nanoseconds.\<close>

record Updater =
  Period :: int
  DNSAddress :: string
  Cyberghost :: bool
  Mullvad :: bool
  Nordvpn :: bool
  PIA :: bool
  Privado :: bool
  Purevpn :: bool
  Surfshark :: bool
  Torguard :: bool
  Vyprvpn :: bool
  Windscribe :: bool
  Stdout :: bool
  CLI :: bool

definition Updater_zero :: Updater where
  "Updater_zero =
     \<lparr> Period = 0, DNSAddress = [], Cyberghost = False, Mullvad = False, Nordvpn = False,
       PIA = False, Privado = False, Purevpn = False, Surfshark = False, Torguard = False,
       Vyprvpn = False, Windscribe = False, Stdout = False, CLI = False \<rparr>"

text \<open>
  The package constants \<open>lastIndent\<close> and \<open>indent\<close> and the method
  \<open>time.Duration.String\<close> are outside the sources and are parameters.
\<close>

record style =
  lastIndent :: string
  indent :: string
  Duration_String :: "int \<Rightarrow> string"

definition lines :: "style \<Rightarrow> Updater \<Rightarrow> string list" where
  "lines st settings =
     (if Period settings = 0 then []
      else [lastIndent st @ ''Updater:'',
            indent st @ lastIndent st @ ''Period: every '' @ Duration_String st (Period settings)])"

definition Updater_String :: "style \<Rightarrow> Updater \<Rightarrow> string" where
  "Updater_String st settings = join [CHR 0x0A] (lines st settings)"

text \<open>
  \<open>r.env.Duration(key, params.Default(d))\<close> is a parameter: it gives the duration and
  the error (\<open>None\<close> when the value parses), which \<open>read\<close> assigns to
  \<open>settings.Period\<close> and \<open>err\<close>.
\<close>

definition read :: "(string \<Rightarrow> string \<Rightarrow> int \<times> string option) \<Rightarrow> Updater \<Rightarrow> Updater \<times> unit error option" where
  "read env_Duration settings =
     (let settings1 = settings
            \<lparr> Cyberghost := True, Mullvad := True, Nordvpn := True, PIA := True,
              Purevpn := True, Surfshark := True, Torguard := True, Vyprvpn := True,
              Windscribe := True, Stdout := False, CLI := False, DNSAddress := ''1.1.1.1'' \<rparr>;
          (period, err) = env_Duration ''UPDATER_PERIOD'' ''0'';
          settings2 = settings1 \<lparr> Period := period \<rparr>
      in (case err of Some m \<Rightarrow> (settings2, Some (External m)) | None \<Rightarrow> (settings2, None)))"

section \<open>WireGuard settings\<close>

text \<open>
  Modelled from the spec: the \<open>Settings\<close> of package \<open>wireguard\<close>, their \<open>Check\<close>
  and their \<open>ToLines\<close> are not part of the sources, only their tests are. The model
  follows the ordered list of checks of the spec's validator and the spec's presenter, with
  the sentinel errors, messages and rendered lines that the tests expect.
\<close>

record UDPAddr =
  IP :: "8 word list option"
  Port :: int

record IPNet =
  IP :: "8 word list option"
  Mask :: "8 word list option"

record Settings =
  InterfaceName :: string
  PrivateKey :: string
  PublicKey :: string
  PreSharedKey :: string
  Endpoint :: "UDPAddr option"
  FirewallMark :: nat
  RulePriority :: nat
  Addresses :: "IPNet option list"
  AllowedIPs :: "IPNet option list"
  IPv6 :: "bool option"
  Implementation :: string

definition Settings_zero :: Settings where
  "Settings_zero =
     \<lparr> InterfaceName = [], PrivateKey = [], PublicKey = [], PreSharedKey = [],
       Endpoint = None, FirewallMark = 0, RulePriority = 0, Addresses = [], AllowedIPs = [],
       IPv6 = None, Implementation = [] \<rparr>"

datatype wg_sentinel =
    ErrInterfaceNameInvalid
  | ErrPrivateKeyMissing
  | ErrPrivateKeyInvalid
  | ErrPublicKeyMissing
  | ErrPublicKeyInvalid
  | ErrPreSharedKeyInvalid
  | ErrEndpointMissing
  | ErrEndpointIPMissing
  | ErrEndpointPortMissing
  | ErrAllowedIPsMissing
  | ErrAllowedIPIsNil
  | ErrAllowedIPIPIsNil
  | ErrAllowedIPv6NotSupported
  | ErrAddressMissing
  | ErrAddressNil
  | ErrAddressIPMissing
  | ErrAddressMaskMissing
  | ErrFirewallMarkMissing
  | ErrImplementationInvalid

text \<open>The text of each sentinel, as the messages of \<open>Test_Settings_Check\<close> show it.\<close>

fun wg_text :: "wg_sentinel \<Rightarrow> string" where
  "wg_text ErrInterfaceNameInvalid = ''invalid interface name''"
| "wg_text ErrPrivateKeyMissing = ''private key is missing''"
| "wg_text ErrPrivateKeyInvalid = ''cannot parse private key''"
| "wg_text ErrPublicKeyMissing = ''public key is missing''"
| "wg_text ErrPublicKeyInvalid = ''cannot parse public key''"
| "wg_text ErrPreSharedKeyInvalid = ''cannot parse pre-shared key''"
| "wg_text ErrEndpointMissing = ''endpoint is missing''"
| "wg_text ErrEndpointIPMissing = ''endpoint IP is missing''"
| "wg_text ErrEndpointPortMissing = ''endpoint port is missing''"
| "wg_text ErrAllowedIPsMissing = ''allowed IPs are missing''"
| "wg_text ErrAllowedIPIsNil = ''allowed IP is nil''"
| "wg_text ErrAllowedIPIPIsNil = ''allowed IP IP field is nil''"
| "wg_text ErrAllowedIPv6NotSupported = ''allowed IPv6 address not supported''"
| "wg_text ErrAddressMissing = ''interface address is missing''"
| "wg_text ErrAddressNil = ''interface address is nil''"
| "wg_text ErrAddressIPMissing = ''interface address IP is missing''"
| "wg_text ErrAddressMaskMissing = ''interface address mask is missing''"
| "wg_text ErrFirewallMarkMissing = ''firewall mark is missing''"
| "wg_text ErrImplementationInvalid = ''invalid implementation''"

text \<open>
  Parameters: whether a string parses as a key (base64 of 32 bytes), and the \<open>String\<close>
  methods of \<open>*net.IPNet\<close> and \<open>*net.UDPAddr\<close>.
\<close>

record wg_deps =
  ParseKey :: "string \<Rightarrow> bool"
  IPNet_String :: "IPNet option \<Rightarrow> string"
  UDPAddr_String :: "UDPAddr \<Rightarrow> string"

text \<open>
  The interface-name grammar: one or more letters, digits or underscores (the tests
  reject the empty name and \<open>$H1T\<close> and accept \<open>wg0\<close> and \<open>wg1\<close>).
\<close>

definition regexpInterfaceName :: "string \<Rightarrow> bool" where
  "regexpInterfaceName s = (s \<noteq> [] \<and> list_all (\<lambda>c. alnum c \<or> c = CHR ''_'') s)"

text \<open>\<open>net.IP.To4\<close>: the four bytes of an IPv4 address, nil for an IPv6 address.\<close>

definition To4 :: "8 word list \<Rightarrow> 8 word list option" where
  "To4 ip =
     (if length ip = 4 then Some ip
      else if length ip = 16 \<and> take 10 ip = replicate 10 0 \<and> take 2 (drop 10 ip) = [255, 255]
      then Some (drop 12 ip)
      else None)"

definition position :: "string \<Rightarrow> nat \<Rightarrow> nat \<Rightarrow> string" where
  "position what i n = '': for '' @ what @ '' '' @ show_nat (i + 1) @ '' of '' @ show_nat n"

definition checkInterfaceName :: "Settings \<Rightarrow> wg_sentinel error option" where
  "checkInterfaceName s =
     (if \<not> regexpInterfaceName (InterfaceName s)
      then Some (Errorf [] (Sentinel ErrInterfaceNameInvalid) ('': '' @ InterfaceName s))
      else None)"

definition checkPrivateKey :: "wg_deps \<Rightarrow> Settings \<Rightarrow> wg_sentinel error option" where
  "checkPrivateKey d s =
     (if PrivateKey s = [] then Some (Errorf [] (Sentinel ErrPrivateKeyMissing) [])
      else if \<not> ParseKey d (PrivateKey s) then Some (Errorf [] (Sentinel ErrPrivateKeyInvalid) [])
      else None)"

definition checkPublicKey :: "wg_deps \<Rightarrow> Settings \<Rightarrow> wg_sentinel error option" where
  "checkPublicKey d s =
     (if PublicKey s = [] then Some (Errorf [] (Sentinel ErrPublicKeyMissing) [])
      else if \<not> ParseKey d (PublicKey s)
      then Some (Errorf [] (Sentinel ErrPublicKeyInvalid) ('': '' @ PublicKey s))
      else None)"

definition checkPreSharedKey :: "wg_deps \<Rightarrow> Settings \<Rightarrow> wg_sentinel error option" where
  "checkPreSharedKey d s =
     (if PreSharedKey s \<noteq> [] \<and> \<not> ParseKey d (PreSharedKey s)
      then Some (Errorf [] (Sentinel ErrPreSharedKeyInvalid) [])
      else None)"

definition checkEndpoint :: "Settings \<Rightarrow> wg_sentinel error option" where
  "checkEndpoint s =
     (case Endpoint s of
        None \<Rightarrow> Some (Errorf [] (Sentinel ErrEndpointMissing) [])
      | Some e \<Rightarrow>
          if UDPAddr.IP e = None then Some (Errorf [] (Sentinel ErrEndpointIPMissing) [])
          else if Port e = 0 then Some (Errorf [] (Sentinel ErrEndpointPortMissing) [])
          else None)"

fun allowedIPs_loop ::
  "wg_deps \<Rightarrow> bool option \<Rightarrow> nat \<Rightarrow> nat \<Rightarrow> IPNet option list \<Rightarrow> wg_sentinel error option" where
  "allowedIPs_loop d ipv6 n i [] = None"
| "allowedIPs_loop d ipv6 n i (a # rest) =
     (case a of
        None \<Rightarrow> Some (Errorf [] (Sentinel ErrAllowedIPIsNil) (position ''allowed IP'' i n))
      | Some net \<Rightarrow>
          (case IPNet.IP net of
             None \<Rightarrow> Some (Errorf [] (Sentinel ErrAllowedIPIPIsNil) (position ''allowed IP'' i n))
           | Some ip \<Rightarrow>
               if To4 ip = None \<and> ipv6 \<noteq> Some True
               then Some (Errorf [] (Sentinel ErrAllowedIPv6NotSupported)
                      ('': for allowed IP '' @ IPNet_String d a))
               else allowedIPs_loop d ipv6 n (i + 1) rest))"

definition checkAllowedIPs :: "wg_deps \<Rightarrow> Settings \<Rightarrow> wg_sentinel error option" where
  "checkAllowedIPs d s =
     (if AllowedIPs s = [] then Some (Errorf [] (Sentinel ErrAllowedIPsMissing) [])
      else allowedIPs_loop d (IPv6 s) (length (AllowedIPs s)) 0 (AllowedIPs s))"

fun addresses_loop :: "nat \<Rightarrow> nat \<Rightarrow> IPNet option list \<Rightarrow> wg_sentinel error option" where
  "addresses_loop n i [] = None"
| "addresses_loop n i (a # rest) =
     (case a of
        None \<Rightarrow> Some (Errorf [] (Sentinel ErrAddressNil) (position ''address'' i n))
      | Some net \<Rightarrow>
          if IPNet.IP net = None
          then Some (Errorf [] (Sentinel ErrAddressIPMissing) (position ''address'' i n))
          else if Mask net = None
          then Some (Errorf [] (Sentinel ErrAddressMaskMissing) (position ''address'' i n))
          else addresses_loop n (i + 1) rest)"

definition checkAddresses :: "Settings \<Rightarrow> wg_sentinel error option" where
  "checkAddresses s =
     (if Addresses s = [] then Some (Errorf [] (Sentinel ErrAddressMissing) [])
      else addresses_loop (length (Addresses s)) 0 (Addresses s))"

definition checkFirewallMark :: "Settings \<Rightarrow> wg_sentinel error option" where
  "checkFirewallMark s =
     (if FirewallMark s = 0 then Some (Errorf [] (Sentinel ErrFirewallMarkMissing) [])
      else None)"

definition implementations :: "string list" where
  "implementations = [''auto'', ''kernelspace'', ''userspace'']"

definition checkImplementation :: "Settings \<Rightarrow> wg_sentinel error option" where
  "checkImplementation s =
     (if Implementation s \<in> set implementations then None
      else Some (Errorf [] (Sentinel ErrImplementationInvalid) ('': '' @ Implementation s)))"

text \<open>The checks in the order of the spec; \<open>Check\<close> returns the first error.\<close>

definition checks :: "wg_deps \<Rightarrow> Settings \<Rightarrow> wg_sentinel error option list" where
  "checks d s =
     [ checkInterfaceName s, checkPrivateKey d s, checkPublicKey d s, checkPreSharedKey d s,
       checkEndpoint s, checkAllowedIPs d s, checkAddresses s, checkFirewallMark s,
       checkImplementation s ]"

fun first_error :: "'e option list \<Rightarrow> 'e option" where
  "first_error [] = None"
| "first_error (c # cs) = (case c of Some e \<Rightarrow> Some e | None \<Rightarrow> first_error cs)"

definition Check :: "wg_deps \<Rightarrow> Settings \<Rightarrow> wg_sentinel error option" where
  "Check d s = first_error (checks d s)"

subsection \<open>ToLines\<close>

record ToLinesSettings =
  Indent :: "string option"
  FieldPrefix :: "string option"
  LastFieldPrefix :: "string option"

definition branch :: string where
  "branch = [CHR 0xE2, CHR 0x94, CHR 0x9C, CHR 0xE2, CHR 0x94, CHR 0x80,
             CHR 0xE2, CHR 0x94, CHR 0x80, CHR 0x20]"

definition leaf :: string where
  "leaf = [CHR 0xE2, CHR 0x94, CHR 0x94, CHR 0xE2, CHR 0x94, CHR 0x80,
           CHR 0xE2, CHR 0x94, CHR 0x80, CHR 0x20]"

definition ToLinesSettings_setDefaults :: "ToLinesSettings \<Rightarrow> ToLinesSettings" where
  "ToLinesSettings_setDefaults settings =
     settings \<lparr> Indent := DefaultPointer (Indent settings) ''    '',
                FieldPrefix := DefaultPointer (FieldPrefix settings) branch,
                LastFieldPrefix := DefaultPointer (LastFieldPrefix settings) leaf \<rparr>"

definition pointee :: "string option \<Rightarrow> string" where
  "pointee p = (case p of None \<Rightarrow> [] | Some v \<Rightarrow> v)"

fun address_lines :: "wg_deps \<Rightarrow> string \<Rightarrow> string \<Rightarrow> string \<Rightarrow> IPNet option list \<Rightarrow> string list" where
  "address_lines d ind fieldPrefix lastFieldPrefix [] = []"
| "address_lines d ind fieldPrefix lastFieldPrefix [a] =
     [ind @ lastFieldPrefix @ IPNet_String d a]"
| "address_lines d ind fieldPrefix lastFieldPrefix (a # b # rest) =
     (ind @ fieldPrefix @ IPNet_String d a) #
     address_lines d ind fieldPrefix lastFieldPrefix (b # rest)"

definition ToLines :: "wg_deps \<Rightarrow> Settings \<Rightarrow> ToLinesSettings \<Rightarrow> string list" where
  "ToLines d s settings =
     (let st = ToLinesSettings_setDefaults settings;
          ind = pointee (Indent st);
          fieldPrefix = pointee (FieldPrefix st);
          lastFieldPrefix = pointee (LastFieldPrefix st)
      in [fieldPrefix @ ''Interface name: '' @ InterfaceName s,
          fieldPrefix @ ''Private key: '' @ (if PrivateKey s \<noteq> [] then ''set'' else ''not set'')]
         @ (if PublicKey s \<noteq> [] then [fieldPrefix @ ''PublicKey: '' @ PublicKey s] else [])
         @ [fieldPrefix @ ''Pre shared key: '' @
              (if PreSharedKey s \<noteq> [] then ''set'' else ''not set''),
            fieldPrefix @ ''Endpoint: '' @
              (case Endpoint s of None \<Rightarrow> ''not set'' | Some e \<Rightarrow> UDPAddr_String d e),
            fieldPrefix @ ''IPv6: '' @ (if IPv6 s = Some True then ''enabled'' else ''disabled'')]
         @ (if FirewallMark s \<noteq> 0
            then [fieldPrefix @ ''Firewall mark: '' @ show_nat (FirewallMark s)] else [])
         @ (if RulePriority s \<noteq> 0
            then [fieldPrefix @ ''Rule priority: '' @ show_nat (RulePriority s)] else [])
         @ [fieldPrefix @ ''Implementation: '' @ Implementation s]
         @ (if Addresses s = [] then [lastFieldPrefix @ ''Addresses: not set'']
            else (lastFieldPrefix @ ''Addresses:'') #
                 address_lines d ind fieldPrefix lastFieldPrefix (Addresses s)))"

section \<open>Environments for evaluating the model on concrete inputs\<close>

definition base64_char :: "char \<Rightarrow> bool" where
  "base64_char c = (alnum c \<or> c = CHR ''+'' \<or> c = CHR ''/'' \<or> c = CHR ''='')"

definition deps_example :: deps where
  "deps_example =
     \<lparr> IsOneOf_Error = (\<lambda>v choices. v @ '' must be one of '' @ show_strings choices),
       DecodeString =
         (\<lambda>s. if list_all base64_char s \<and> length s mod 4 = 0 then None
              else Some ''illegal base64 data''),
       FileExists = (\<lambda>p. if p = ''/gluetun/custom.conf'' then None else Some ''file does not exist''),
       extract_Data = (\<lambda>p. None),
       regexpInterfaceName_MatchString = regexpInterfaceName,
       regexpInterfaceName_String = ''^[a-zA-Z0-9_]+$'',
       Verbosity_address = 49152,
       ObfuscateKey_shown = (\<lambda>key. if length key < 32 then None else Some (3, 3)) \<rparr>"

definition wg_deps_example :: wg_deps where
  "wg_deps_example =
     \<lparr> ParseKey = (\<lambda>s. list_all base64_char s \<and> length s = 44),
       IPNet_String = (\<lambda>n. case n of None \<Rightarrow> ''<nil>'' | Some _ \<Rightarrow> ''::/0''),
       UDPAddr_String = (\<lambda>a. ''1.2.3.4:'' @ show_int (Port a)) \<rparr>"


text \<open>Example inputs.\<close>

definition merge_receiver :: OpenVPN where
  "merge_receiver = OpenVPN_zero \<lparr> User := Some ''alice'', Ciphers := Some [], Interface := ''tun1'' \<rparr>"

definition merge_other :: OpenVPN where
  "merge_other =
     OpenVPN_zero \<lparr> Version := ''2.6'', User := Some ''bob'', Password := Some ''secret'',
                    Ciphers := Some [''aes-256-gcm''], Interface := ''tun2'' \<rparr>"

definition bad_key_settings :: Settings where
  "bad_key_settings = Settings_zero \<lparr> InterfaceName := ''wg0'', PrivateKey := ''bad key'' \<rparr>"

definition bad_name_settings :: Settings where
  "bad_name_settings = Settings_zero \<lparr> InterfaceName := ''$H1T'', PrivateKey := ''bad key'' \<rparr>"

definition valid_settings :: OpenVPN where
  "valid_settings = (setDefaults ''mullvad'' OpenVPN_zero) \<lparr> User := Some ''user'' \<rparr>"

definition empty_user_settings :: OpenVPN where
  "empty_user_settings = setDefaults ''mullvad'' OpenVPN_zero"

definition ivpn_settings :: OpenVPN where
  "ivpn_settings = (setDefaults ''ivpn'' OpenVPN_zero) \<lparr> User := Some ''i-ab12-CD34-ef56'' \<rparr>"

definition no_password_settings :: OpenVPN where
  "no_password_settings = (setDefaults ''ivpn'' OpenVPN_zero) \<lparr> User := Some ''bob'' \<rparr>"

definition bad_cert_settings :: OpenVPN where
  "bad_cert_settings = valid_settings \<lparr> Cert := Some ''not base64!'' \<rparr>"

definition cyberghost_settings :: OpenVPN where
  "cyberghost_settings =
     (setDefaults ''cyberghost'' OpenVPN_zero) \<lparr> User := Some ''user'', Password := Some ''pass'' \<rparr>"










text \<open>The settings of the cases of \<open>Test_Settings_Check\<close>.\<close>

definition test_keys :: Settings where
  "test_keys =
     Settings_zero \<lparr> InterfaceName := ''wg0'',
       PrivateKey := ''oMNSf/zJ0pt1ciy+qIRk8Rlyfs9accwuRLnKd85Yl1Q='',
       PublicKey := ''aPjc9US5ICB30D1P4glR9tO7bkB2Ga+KZiFqnoypBHk='' \<rparr>"

definition test_endpoint :: Settings where
  "test_endpoint =
     test_keys \<lparr> Endpoint := Some \<lparr> UDPAddr.IP = Some [1, 2, 3, 4], Port = 51820 \<rparr> \<rparr>"

definition allIPv6 :: IPNet where
  "allIPv6 = \<lparr> IPNet.IP = Some (replicate 16 0), Mask = Some (replicate 16 0) \<rparr>"

definition test_all_valid :: Settings where
  "test_all_valid =
     test_endpoint \<lparr> AllowedIPs := [Some allIPv6], IPv6 := Some True,
       Addresses := [Some \<lparr> IPNet.IP = Some [1, 2, 3, 4], Mask = Some [255, 255, 255, 0] \<rparr>],
       FirewallMark := 999, Implementation := ''userspace'' \<rparr>"

section \<open>Basic facts\<close>

lemmas providers_defs =
  providers_Airvpn_def providers_Custom_def providers_Cyberghost_def providers_Ivpn_def
  providers_Mullvad_def providers_PrivateInternetAccess_def providers_VPNSecure_def
  providers_VPNUnlimited_def providers_Wevpn_def

lemmas gosettings_defs =
  MergeWithString_def MergeWithPointer_def MergeWithSlice_def DefaultString_def
  DefaultPointer_def

lemma first_error_nth:
  "i < length cs \<Longrightarrow> cs ! i = Some e \<Longrightarrow> (\<forall>j<i. cs ! j = None) \<Longrightarrow> first_error cs = Some e"
proof (induction cs arbitrary: i)
  case Nil
  then show ?case by simp
next
  case (Cons c cs)
  show ?case
  proof (cases i)
    case 0
    with Cons.prems show ?thesis by simp
  next
    case (Suc k)
    with Cons.prems have c: "c = None" by auto
    from Cons.prems Suc have "k < length cs" "cs ! k = Some e" "\<forall>j<k. cs ! j = None"
      by auto
    then have "first_error cs = Some e" by (rule Cons.IH)
    with c show ?thesis by simp
  qed
qed

section \<open>The resolution algebra of the OpenVPN settings\<close>

text \<open>
  C1. After \<open>a.mergeWith(b)\<close>, every field of \<open>a\<close> that was present before the call
  (a non-empty string, a non-nil pointer, a non-nil slice) is unchanged, whatever \<open>b\<close>
  holds for it, and every field of \<open>a\<close> that was absent has the value of \<open>b\<close>'s field.
\<close>

theorem mergeWith_keeps_present:
  "(Version a \<noteq> [] \<longrightarrow> Version (mergeWith a b) = Version a) \<and>
   (Version a = [] \<longrightarrow> Version (mergeWith a b) = Version b) \<and>
   (User a \<noteq> None \<longrightarrow> User (mergeWith a b) = User a) \<and>
   (User a = None \<longrightarrow> User (mergeWith a b) = User b) \<and>
   (Password a \<noteq> None \<longrightarrow> Password (mergeWith a b) = Password a) \<and>
   (Password a = None \<longrightarrow> Password (mergeWith a b) = Password b) \<and>
   (ConfFile a \<noteq> None \<longrightarrow> ConfFile (mergeWith a b) = ConfFile a) \<and>
   (ConfFile a = None \<longrightarrow> ConfFile (mergeWith a b) = ConfFile b) \<and>
   (Ciphers a \<noteq> None \<longrightarrow> Ciphers (mergeWith a b) = Ciphers a) \<and>
   (Ciphers a = None \<longrightarrow> Ciphers (mergeWith a b) = Ciphers b) \<and>
   (Auth a \<noteq> None \<longrightarrow> Auth (mergeWith a b) = Auth a) \<and>
   (Auth a = None \<longrightarrow> Auth (mergeWith a b) = Auth b) \<and>
   (Cert a \<noteq> None \<longrightarrow> Cert (mergeWith a b) = Cert a) \<and>
   (Cert a = None \<longrightarrow> Cert (mergeWith a b) = Cert b) \<and>
   (Key a \<noteq> None \<longrightarrow> Key (mergeWith a b) = Key a) \<and>
   (Key a = None \<longrightarrow> Key (mergeWith a b) = Key b) \<and>
   (EncryptedKey a \<noteq> None \<longrightarrow> EncryptedKey (mergeWith a b) = EncryptedKey a) \<and>
   (EncryptedKey a = None \<longrightarrow> EncryptedKey (mergeWith a b) = EncryptedKey b) \<and>
   (KeyPassphrase a \<noteq> None \<longrightarrow> KeyPassphrase (mergeWith a b) = KeyPassphrase a) \<and>
   (KeyPassphrase a = None \<longrightarrow> KeyPassphrase (mergeWith a b) = KeyPassphrase b) \<and>
   (PIAEncPreset a \<noteq> None \<longrightarrow> PIAEncPreset (mergeWith a b) = PIAEncPreset a) \<and>
   (PIAEncPreset a = None \<longrightarrow> PIAEncPreset (mergeWith a b) = PIAEncPreset b) \<and>
   (MSSFix a \<noteq> None \<longrightarrow> MSSFix (mergeWith a b) = MSSFix a) \<and>
   (MSSFix a = None \<longrightarrow> MSSFix (mergeWith a b) = MSSFix b) \<and>
   (Interface a \<noteq> [] \<longrightarrow> Interface (mergeWith a b) = Interface a) \<and>
   (Interface a = [] \<longrightarrow> Interface (mergeWith a b) = Interface b) \<and>
   (ProcessUser a \<noteq> [] \<longrightarrow> ProcessUser (mergeWith a b) = ProcessUser a) \<and>
   (ProcessUser a = [] \<longrightarrow> ProcessUser (mergeWith a b) = ProcessUser b) \<and>
   (Verbosity a \<noteq> None \<longrightarrow> Verbosity (mergeWith a b) = Verbosity a) \<and>
   (Verbosity a = None \<longrightarrow> Verbosity (mergeWith a b) = Verbosity b) \<and>
   (Flags a \<noteq> None \<longrightarrow> Flags (mergeWith a b) = Flags a) \<and>
   (Flags a = None \<longrightarrow> Flags (mergeWith a b) = Flags b)"
  by (simp add: mergeWith_def gosettings_defs)

theorem mergeWith_keeps_present_witness:
  "User merge_receiver \<noteq> None \<and> User merge_other = Some ''bob'' \<and>
   User (mergeWith merge_receiver merge_other) = Some ''alice'' \<and>
   Ciphers merge_receiver \<noteq> None \<and> Ciphers (mergeWith merge_receiver merge_other) = Some [] \<and>
   Interface merge_receiver \<noteq> [] \<and> Interface (mergeWith merge_receiver merge_other) = ''tun1'' \<and>
   Version merge_receiver = [] \<and> Version (mergeWith merge_receiver merge_other) = ''2.6'' \<and>
   Password merge_receiver = None \<and>
   Password (mergeWith merge_receiver merge_other) = Some ''secret'' \<and>
   Auth merge_receiver = None \<and> Auth (mergeWith merge_receiver merge_other) = None"
  using mergeWith_keeps_present [of merge_receiver merge_other]
  by (simp add: merge_receiver_def merge_other_def OpenVPN_zero_def)

text \<open>
  C2. \<open>setDefaults\<close> is idempotent: for every provider and every settings value, a
  second application with the same provider leaves every field as the first one set it.
\<close>

theorem setDefaults_idempotent:
  "setDefaults p (setDefaults p o') = setDefaults p o'"
  by (simp add: setDefaults_def gosettings_defs openvpn_Openvpn25_def)

section \<open>The checks of the WireGuard settings\<close>

text \<open>
  C3. \<open>Check\<close> fails fast in a fixed order. For the zero-value settings it returns the
  error that wraps the sentinel \<open>ErrInterfaceNameInvalid\<close>, with the exact message
  \<open>invalid interface name: \<close> (ending in a colon and one space). Whenever the interface
  name is not valid this is the error returned, whatever the other fields hold; and in
  general the error of a check is returned when all the checks before it pass, so no later
  check's error is returned when an earlier check fails.
\<close>

theorem Check_fail_fast:
  "Check d Settings_zero = Some (Errorf [] (Sentinel ErrInterfaceNameInvalid) '': '') \<and>
   errors_Is (Errorf [] (Sentinel ErrInterfaceNameInvalid) '': '') ErrInterfaceNameInvalid \<and>
   Error wg_text (Errorf [] (Sentinel ErrInterfaceNameInvalid) '': '') =
     ''invalid interface name: '' \<and>
   (\<forall>s. \<not> regexpInterfaceName (InterfaceName s) \<longrightarrow>
        Check d s =
          Some (Errorf [] (Sentinel ErrInterfaceNameInvalid) ('': '' @ InterfaceName s))) \<and>
   (\<forall>s i e. i < length (checks d s) \<longrightarrow> checks d s ! i = Some e \<longrightarrow>
        (\<forall>j<i. checks d s ! j = None) \<longrightarrow> Check d s = Some e)"
proof -
  have 1: "Check d Settings_zero = Some (Errorf [] (Sentinel ErrInterfaceNameInvalid) '': '')"
    by (simp add: Check_def checks_def checkInterfaceName_def regexpInterfaceName_def
        Settings_zero_def)
  have 2: "\<not> regexpInterfaceName (InterfaceName s) \<Longrightarrow>
        Check d s = Some (Errorf [] (Sentinel ErrInterfaceNameInvalid) ('': '' @ InterfaceName s))"
    for s by (simp add: Check_def checks_def checkInterfaceName_def)
  have 3: "i < length (checks d s) \<Longrightarrow> checks d s ! i = Some e \<Longrightarrow>
        (\<forall>j<i. checks d s ! j = None) \<Longrightarrow> Check d s = Some e" for s i e
    unfolding Check_def by (rule first_error_nth)
  show ?thesis using 1 2 3 by simp
qed

theorem Check_fail_fast_witness:
  "Check wg_deps_example Settings_zero =
     Some (Errorf [] (Sentinel ErrInterfaceNameInvalid) '': '') \<and>
   \<not> regexpInterfaceName (InterfaceName bad_name_settings) \<and>
   Check wg_deps_example bad_name_settings =
     Some (Errorf [] (Sentinel ErrInterfaceNameInvalid) '': $H1T'') \<and>
   1 < length (checks wg_deps_example bad_key_settings) \<and>
   checks wg_deps_example bad_key_settings ! 1 =
     Some (Errorf [] (Sentinel ErrPrivateKeyInvalid) []) \<and>
   checks wg_deps_example bad_key_settings ! 0 = None \<and>
   Check wg_deps_example bad_key_settings = Some (Errorf [] (Sentinel ErrPrivateKeyInvalid) [])"
proof -
  have a: "\<not> regexpInterfaceName (InterfaceName bad_name_settings)"
    by (simp add: regexpInterfaceName_def alnum_def bad_name_settings_def)
  have n: "InterfaceName bad_name_settings = ''$H1T''"
    by (simp add: bad_name_settings_def)
  have b: "regexpInterfaceName ''wg0''"
    by (simp add: regexpInterfaceName_def alnum_def)
  have c: "checks wg_deps_example bad_key_settings ! 1 =
      Some (Errorf [] (Sentinel ErrPrivateKeyInvalid) [])"
    by (simp add: checks_def checkPrivateKey_def bad_key_settings_def Settings_zero_def
        wg_deps_example_def)
  have d: "checks wg_deps_example bad_key_settings ! 0 = None"
    using b by (simp add: checks_def checkInterfaceName_def bad_key_settings_def)
  have l: "1 < length (checks wg_deps_example bad_key_settings)"
    by (simp add: checks_def)
  from Check_fail_fast [of wg_deps_example] a n c d l show ?thesis
    by simp
qed

subsection \<open>The model on the cases of the tests\<close>

text \<open>
  The model of \<open>Check\<close> and \<open>ToLines\<close> gives the messages and the lines that
  \<open>Test_Settings_Check\<close> and \<open>Test_Settings_String\<close> expect.
\<close>

lemmas Check_defs =
  Check_def checks_def checkInterfaceName_def checkPrivateKey_def checkPublicKey_def
  checkPreSharedKey_def checkEndpoint_def checkAllowedIPs_def checkAddresses_def
  checkFirewallMark_def checkImplementation_def implementations_def position_def
  regexpInterfaceName_def alnum_def base64_char_def To4_def
  wg_deps_example_def Settings_zero_def test_keys_def test_endpoint_def test_all_valid_def
  allIPv6_def

lemma replicate_eq:
  "replicate 2 (0::8 word) = [0, 0]" "replicate 10 (0::8 word) = [0, 0, 0, 0, 0, 0, 0, 0, 0, 0]"
  "replicate 16 (0::8 word) = [0, 0, 0, 0, 0, 0, 0, 0, 0, 0, 0, 0, 0, 0, 0, 0]"
  by (simp_all add: numeral_eq_Suc)

lemma Check_test_bad_interface_name:
  "map_option (Error wg_text) (Check wg_deps_example (Settings_zero \<lparr> InterfaceName := ''$H1T'' \<rparr>)) =
     Some ''invalid interface name: $H1T''"
  by (simp add: Check_defs)

lemma Check_test_empty_private_key:
  "map_option (Error wg_text) (Check wg_deps_example (Settings_zero \<lparr> InterfaceName := ''wg0'' \<rparr>)) =
     Some ''private key is missing''"
  by (simp add: Check_defs)

lemma Check_test_bad_public_key:
  "map_option (Error wg_text) (Check wg_deps_example (test_keys \<lparr> PublicKey := ''bad key'' \<rparr>)) =
     Some ''cannot parse public key: bad key''"
  by (simp add: Check_defs)

lemma Check_test_empty_endpoint:
  "map_option (Error wg_text) (Check wg_deps_example test_keys) = Some ''endpoint is missing''"
  by (simp add: Check_defs)

lemma Check_test_nil_allowed_IP:
  "map_option (Error wg_text) (Check wg_deps_example (test_endpoint \<lparr> AllowedIPs := [None] \<rparr>)) =
     Some ''allowed IP is nil: for allowed IP 1 of 1''"
  by (simp add: Check_defs show_nat.simps digit_def)

lemma Check_test_ipv6_allowed_IP:
  "map_option (Error wg_text)
     (Check wg_deps_example (test_endpoint \<lparr> AllowedIPs := [Some allIPv6], IPv6 := Some False \<rparr>)) =
     Some ''allowed IPv6 address not supported: for allowed IP ::/0''"
  by (simp add: Check_defs replicate_eq)

lemma Check_test_nil_address_mask:
  "map_option (Error wg_text)
     (Check wg_deps_example
        (test_all_valid \<lparr> Addresses := [Some \<lparr> IPNet.IP = Some [1, 2, 3, 4], Mask = None \<rparr>] \<rparr>)) =
     Some ''interface address mask is missing: for address 1 of 1''"
  by (simp add: Check_defs replicate_eq show_nat.simps digit_def)

lemma Check_test_invalid_implementation:
  "map_option (Error wg_text) (Check wg_deps_example (test_all_valid \<lparr> Implementation := ''x'' \<rparr>)) =
     Some ''invalid implementation: x''"
  by (simp add: Check_defs replicate_eq)

lemma Check_test_all_valid:
  "Check wg_deps_example test_all_valid = None"
  by (simp add: Check_defs replicate_eq)

lemma ToLines_test_String:
  "ToLines wg_deps_example
     (Settings_zero \<lparr> InterfaceName := ''wg0'', IPv6 := Some True, Implementation := ''x'' \<rparr>)
     \<lparr> Indent = None, FieldPrefix = None, LastFieldPrefix = None \<rparr> =
   [branch @ ''Interface name: wg0'', branch @ ''Private key: not set'',
    branch @ ''Pre shared key: not set'', branch @ ''Endpoint: not set'',
    branch @ ''IPv6: enabled'', branch @ ''Implementation: x'', leaf @ ''Addresses: not set'']"
  by (simp add: ToLines_def ToLinesSettings_setDefaults_def DefaultPointer_def pointee_def
      Settings_zero_def)

section \<open>Facts about validate\<close>

lemma first_return_mem:
  "first_return cs = r \<Longrightarrow> r \<noteq> Return None \<Longrightarrow> r \<in> set cs"
  by (induction cs) (auto split: outcome.splits option.splits)

lemma first_return_None:
  "first_return cs = Return None \<longleftrightarrow> list_all (\<lambda>c. c = Return None) cs"
  by (induction cs) (auto split: outcome.splits option.splits)

lemma first_return_pass:
  "c = Return None \<Longrightarrow> first_return (c # cs) = first_return cs"
  by simp

lemma first_return_stop:
  "c \<noteq> Return None \<Longrightarrow> first_return (c # cs) = c"
  by (cases c) (auto split: option.splits)

lemma wrapped_Some:
  "wrapped pre r = Return (Some e) \<Longrightarrow> \<exists>e'. r = Some e' \<and> e = Errorf pre e' []"
  by (cases r) (simp_all add: wrapped_def)

lemma deref_Return:
  "deref p k = Return r \<Longrightarrow> \<exists>v. p = Some v \<and> k v = Return r"
  by (cases p) (simp_all add: deref_def)

lemma validate_Verbosity_Some:
  "validate_Verbosity d o' = Return (Some e) \<Longrightarrow>
     (\<exists>v. Verbosity o' = Some v \<and> (v < 0 \<or> v > 6)) \<and> e = ErrVerbosity d"
  by (auto simp: validate_Verbosity_def dest!: deref_Return split: if_splits)

lemma validate_Verbosity_update:
  "validate_Version d (o' \<lparr> Verbosity := x \<rparr>) = validate_Version d o'"
  "validate_User p (o' \<lparr> Verbosity := x \<rparr>) = validate_User p o'"
  "validate_Password p (o' \<lparr> Verbosity := x \<rparr>) = validate_Password p o'"
  "validate_ConfFile d p (o' \<lparr> Verbosity := x \<rparr>) = validate_ConfFile d p o'"
  "validate_Cert d p (o' \<lparr> Verbosity := x \<rparr>) = validate_Cert d p o'"
  "validate_Key d p (o' \<lparr> Verbosity := x \<rparr>) = validate_Key d p o'"
  "validate_EncryptedKey d p (o' \<lparr> Verbosity := x \<rparr>) = validate_EncryptedKey d p o'"
  "validate_KeyPassphrase (o' \<lparr> Verbosity := x \<rparr>) = validate_KeyPassphrase o'"
  "validate_MSSFix (o' \<lparr> Verbosity := x \<rparr>) = validate_MSSFix o'"
  "validate_Interface d (o' \<lparr> Verbosity := x \<rparr>) = validate_Interface d o'"
  by (simp_all add: validate_Version_def validate_User_def validate_Password_def
      validate_ConfFile_def validate_Cert_def validate_Key_def validate_EncryptedKey_def
      validate_KeyPassphrase_def validate_MSSFix_def validate_Interface_def
      passwordRequired_def cong: if_cong)

lemma validate_mem:
  "validate d p o' = Return (Some e) \<Longrightarrow>
   Return (Some e) \<in> set [validate_Version d o', validate_User p o',
      validate_Password p o', validate_ConfFile d p o', validate_Cert d p o',
      validate_Key d p o', validate_EncryptedKey d p o', validate_KeyPassphrase o',
      validate_MSSFix o', validate_Interface d o', validate_Verbosity d o']"
  unfolding validate_def by (intro first_return_mem) auto

lemma Is_Version:
  "validate_Version d o' = Return (Some e) \<Longrightarrow> errors_Is e s \<Longrightarrow> s = ErrOpenVPNVersionIsNotValid"
  by (auto simp: validate_Version_def IsOneOf_def split: option.splits if_splits)

lemma Is_User:
  "validate_User p o' = Return (Some e) \<Longrightarrow> errors_Is e s \<Longrightarrow> s = ErrOpenVPNUserIsEmpty"
  by (auto simp: validate_User_def dest!: deref_Return split: if_splits)

lemma Is_Password:
  "validate_Password p o' = Return (Some e) \<Longrightarrow> errors_Is e s \<Longrightarrow> s = ErrOpenVPNPasswordIsEmpty"
  by (cases "passwordRequired p o'")
     (auto simp: validate_Password_def and_then_def dest!: deref_Return split: if_splits)

lemma Is_ConfFile:
  "validate_ConfFile d p o' = Return (Some e) \<Longrightarrow> errors_Is e s \<Longrightarrow> s = ErrFilepathMissing"
  by (auto simp: validate_ConfFile_def validateOpenVPNConfigFilepath_def
      dest!: deref_Return wrapped_Some split: if_splits option.splits)

lemma Is_Cert:
  "validate_Cert d p o' = Return (Some e) \<Longrightarrow> errors_Is e s \<Longrightarrow> s = ErrMissingValue"
  by (auto simp: validate_Cert_def validateOpenVPNClientCertificate_def
      dest!: deref_Return wrapped_Some split: if_splits option.splits)

lemma Is_Key:
  "validate_Key d p o' = Return (Some e) \<Longrightarrow> errors_Is e s \<Longrightarrow> s = ErrMissingValue"
  by (auto simp: validate_Key_def validateOpenVPNClientKey_def
      dest!: deref_Return wrapped_Some split: if_splits option.splits)

lemma Is_EncryptedKey:
  "validate_EncryptedKey d p o' = Return (Some e) \<Longrightarrow> errors_Is e s \<Longrightarrow> s = ErrMissingValue"
  by (auto simp: validate_EncryptedKey_def validateOpenVPNEncryptedKey_def
      dest!: deref_Return wrapped_Some split: if_splits option.splits)

lemma Is_KeyPassphrase:
  "validate_KeyPassphrase o' = Return (Some e) \<Longrightarrow> errors_Is e s \<Longrightarrow>
     s = ErrOpenVPNKeyPassphraseIsEmpty"
  by (auto simp: validate_KeyPassphrase_def dest!: deref_Return split: if_splits)

lemma Is_MSSFix:
  "validate_MSSFix o' = Return (Some e) \<Longrightarrow> errors_Is e s \<Longrightarrow> s = ErrOpenVPNMSSFixIsTooHigh"
  by (auto simp: validate_MSSFix_def dest!: deref_Return split: if_splits)

lemma Is_Interface:
  "validate_Interface d o' = Return (Some e) \<Longrightarrow> errors_Is e s \<Longrightarrow>
     s = ErrOpenVPNInterfaceNotValid"
  by (auto simp: validate_Interface_def split: if_splits)

lemma Is_Verbosity:
  "validate_Verbosity d o' = Return (Some e) \<Longrightarrow> errors_Is e s \<Longrightarrow>
     s = ErrOpenVPNVerbosityIsOutOfBounds"
  by (auto simp: validate_Verbosity_def ErrVerbosity_def dest!: deref_Return split: if_splits)

lemmas Is_check =
  Is_Version Is_User Is_Password Is_ConfFile Is_Cert Is_Key Is_EncryptedKey Is_KeyPassphrase
  Is_MSSFix Is_Interface Is_Verbosity

lemma validate_User_origin:
  assumes "validate d p o' = Return (Some e)" "errors_Is e ErrOpenVPNUserIsEmpty"
  shows "validate_User p o' = Return (Some e)"
  using validate_mem [OF assms(1)] assms(2) by (auto dest: Is_check [OF sym])

lemma validate_Password_origin:
  assumes "validate d p o' = Return (Some e)" "errors_Is e ErrOpenVPNPasswordIsEmpty"
  shows "validate_Password p o' = Return (Some e)"
  using validate_mem [OF assms(1)] assms(2) by (auto dest: Is_check [OF sym])

lemma validate_Verbosity_origin:
  assumes "validate d p o' = Return (Some e)" "errors_Is e ErrOpenVPNVerbosityIsOutOfBounds"
  shows "validate_Verbosity d o' = Return (Some e)"
  using validate_mem [OF assms(1)] assms(2) by (auto dest: Is_check [OF sym])

lemmas eval_defs =
  validate_def validate_Version_def validate_User_def validate_Password_def
  validate_ConfFile_def validate_Cert_def validate_Key_def validate_EncryptedKey_def
  validate_KeyPassphrase_def validate_MSSFix_def validate_Interface_def validate_Verbosity_def
  validateOpenVPNConfigFilepath_def validateOpenVPNClientCertificate_def
  validateOpenVPNClientKey_def validateOpenVPNEncryptedKey_def
  passwordRequired_def isUserRequired_def isCustom_def wrapped_def deref_def and_then_def
  IsOneOf_def maxMSSFix_def ErrVerbosity_def
  setDefaults_def OpenVPN_zero_def MergeWithString_def MergeWithPointer_def MergeWithSlice_def DefaultString_def
  DefaultPointer_def openvpn_Openvpn25_def openvpn_Openvpn26_def presets_Strong_def
  providers_Airvpn_def providers_Custom_def providers_Cyberghost_def providers_Ivpn_def
  providers_Mullvad_def providers_PrivateInternetAccess_def providers_VPNSecure_def
  providers_VPNUnlimited_def providers_Wevpn_def
  deps_example_def regexpInterfaceName_def alnum_def base64_char_def

lemma valid_settings_ok:
  "validate deps_example ''mullvad'' (valid_settings \<lparr> Verbosity := Some 0 \<rparr>) = Return None"
  by (simp add: valid_settings_def eval_defs)

lemma show_nat_49152: "show_nat 49152 = ''49152''"
  by (simp add: show_nat.simps digit_def)

lemmas settings_defs =
  setDefaults_def OpenVPN_zero_def DefaultString_def DefaultPointer_def
  openvpn_Openvpn25_def openvpn_Openvpn26_def presets_Strong_def providers_defs

lemmas check_defs =
  validate_Version_def validate_User_def validate_Password_def
  validate_ConfFile_def validate_Cert_def validate_Key_def validate_EncryptedKey_def
  validate_KeyPassphrase_def validate_MSSFix_def validate_Interface_def validate_Verbosity_def
  validateOpenVPNConfigFilepath_def validateOpenVPNClientCertificate_def
  validateOpenVPNClientKey_def validateOpenVPNEncryptedKey_def
  passwordRequired_def isUserRequired_def isCustom_def wrapped_def deref_def and_then_def
  IsOneOf_def maxMSSFix_def

lemma ivpn_match: "ivpnAccountID_MatchString ''i-ab12-CD34-ef56''"
  by (simp add: ivpnAccountID_MatchString_def three_groups_def alnum_def)

lemma bob_no_match: "\<not> ivpnAccountID_MatchString ''bob''"
  by (simp add: ivpnAccountID_MatchString_def three_groups_def alnum_def)

section \<open>The checks of the OpenVPN settings\<close>

text \<open>
  C4. The verbosity check compares against a bound that its message does not cite.
  Whenever \<open>validate\<close> returns an error wrapping the sentinel
  \<open>ErrOpenVPNVerbosityIsOutOfBounds\<close>, the verbosity is below 0 or above 6. The check is
  the last one: for settings that every earlier check accepts (they validate with a
  verbosity of 0), \<open>validate\<close> returns that error exactly when the verbosity is below 0
  or above 6, so that the values 0 to 6 pass. The message of the error nevertheless ends
  in \<open>can only be between 0 and 5\<close>.
\<close>

theorem validate_Verbosity_bound:
  "(validate d p o' = Return (Some e) \<and> errors_Is e ErrOpenVPNVerbosityIsOutOfBounds \<longrightarrow>
      (\<exists>v. Verbosity o' = Some v \<and> (v < 0 \<or> v > 6)) \<and> e = ErrVerbosity d) \<and>
   (validate d p (o' \<lparr> Verbosity := Some 0 \<rparr>) = Return None \<longrightarrow>
      validate d p (o' \<lparr> Verbosity := Some v \<rparr>) =
        (if v < 0 \<or> v > 6 then Return (Some (ErrVerbosity d)) else Return None)) \<and>
   Error txt (ErrVerbosity d) =
     txt ErrOpenVPNVerbosityIsOutOfBounds @ '': '' @ show_nat (Verbosity_address d) @
     '' can only be between 0 and 5''"
proof -
  have 1: "(\<exists>v. Verbosity o' = Some v \<and> (v < 0 \<or> v > 6)) \<and> e = ErrVerbosity d"
    if a: "validate d p o' = Return (Some e)" "errors_Is e ErrOpenVPNVerbosityIsOutOfBounds"
  proof -
    from a have "validate_Verbosity d o' = Return (Some e)"
      by (rule validate_Verbosity_origin)
    then show ?thesis by (rule validate_Verbosity_Some)
  qed
  have 2: "validate d p (o' \<lparr> Verbosity := Some v \<rparr>) =
        (if v < 0 \<or> v > 6 then Return (Some (ErrVerbosity d)) else Return None)"
    if "validate d p (o' \<lparr> Verbosity := Some 0 \<rparr>) = Return None"
  proof -
    from that have "list_all (\<lambda>c. c = Return None)
       [validate_Version d o', validate_User p o', validate_Password p o',
        validate_ConfFile d p o', validate_Cert d p o', validate_Key d p o',
        validate_EncryptedKey d p o', validate_KeyPassphrase o', validate_MSSFix o',
        validate_Interface d o']"
      unfolding validate_def first_return_None by (simp add: validate_Verbosity_update)
    then show ?thesis
      by (simp add: validate_def validate_Verbosity_update validate_Verbosity_def deref_def)
  qed
  have 3: "Error txt (ErrVerbosity d) =
     txt ErrOpenVPNVerbosityIsOutOfBounds @ '': '' @ show_nat (Verbosity_address d) @
     '' can only be between 0 and 5''"
    by (simp add: ErrVerbosity_def)
  from 1 2 3 show ?thesis by blast
qed

theorem validate_Verbosity_bound_witness:
  "validate deps_example ''mullvad'' (valid_settings \<lparr> Verbosity := Some 0 \<rparr>) = Return None \<and>
   validate deps_example ''mullvad'' (valid_settings \<lparr> Verbosity := Some 6 \<rparr>) = Return None \<and>
   validate deps_example ''mullvad'' (valid_settings \<lparr> Verbosity := Some 7 \<rparr>) =
     Return (Some (ErrVerbosity deps_example)) \<and>
   validate deps_example ''mullvad'' (valid_settings \<lparr> Verbosity := Some (- 1) \<rparr>) =
     Return (Some (ErrVerbosity deps_example)) \<and>
   errors_Is (ErrVerbosity deps_example) ErrOpenVPNVerbosityIsOutOfBounds \<and>
   Error (\<lambda>s. ''verbosity value is out of bounds'') (ErrVerbosity deps_example) =
     ''verbosity value is out of bounds: 49152 can only be between 0 and 5''"
proof -
  note h = valid_settings_ok
  have a: "Verbosity_address deps_example = 49152"
    by (simp add: deps_example_def)
  from validate_Verbosity_bound [of deps_example "''mullvad''" valid_settings _ 6] h
  have 6: "validate deps_example ''mullvad'' (valid_settings \<lparr> Verbosity := Some 6 \<rparr>) =
      Return None" by simp
  from validate_Verbosity_bound [of deps_example "''mullvad''" valid_settings _ 7] h
  have 7: "validate deps_example ''mullvad'' (valid_settings \<lparr> Verbosity := Some 7 \<rparr>) =
      Return (Some (ErrVerbosity deps_example))" by simp
  from validate_Verbosity_bound [of deps_example "''mullvad''" valid_settings _ "- 1"] h
  have m: "validate deps_example ''mullvad'' (valid_settings \<lparr> Verbosity := Some (- 1) \<rparr>) =
      Return (Some (ErrVerbosity deps_example))" by simp
  have i: "errors_Is (ErrVerbosity deps_example) ErrOpenVPNVerbosityIsOutOfBounds"
    by (simp add: ErrVerbosity_def)
  have t: "Error (\<lambda>s. ''verbosity value is out of bounds'') (ErrVerbosity deps_example) =
     ''verbosity value is out of bounds: 49152 can only be between 0 and 5''"
    by (simp add: ErrVerbosity_def a show_nat_49152)
  from h 6 7 m i t show ?thesis by simp
qed

text \<open>
  C5. For settings whose version check passes and whose \<open>User\<close> and \<open>Password\<close>
  pointers are set: an empty user makes \<open>validate\<close> fail with the error of
  \<open>ErrOpenVPNUserIsEmpty\<close> exactly when the provider is not custom, not Airvpn and not
  VPNSecure; when the user check passes too, an empty password makes it fail with the error
  of \<open>ErrOpenVPNPasswordIsEmpty\<close> exactly when the user is required and the provider is
  not Ivpn or the user does not match the account ID pattern. For Ivpn, a user of that
  format waives the password.
\<close>

theorem validate_user_password:
  assumes "validate_Version d o' = Return None" and "User o' = Some u" and "Password o' = Some pw"
  shows
   "(u = [] \<longrightarrow>
       (validate d p o' = Return (Some (Errorf [] (Sentinel ErrOpenVPNUserIsEmpty) [])) \<longleftrightarrow>
        p \<noteq> providers_Custom \<and> p \<noteq> providers_Airvpn \<and> p \<noteq> providers_VPNSecure)) \<and>
    (pw = [] \<and> validate_User p o' = Return None \<longrightarrow>
       (validate d p o' = Return (Some (Errorf [] (Sentinel ErrOpenVPNPasswordIsEmpty) [])) \<longleftrightarrow>
        (p \<noteq> providers_Custom \<and> p \<noteq> providers_Airvpn \<and> p \<noteq> providers_VPNSecure) \<and>
        (p \<noteq> providers_Ivpn \<or> \<not> ivpnAccountID_MatchString u)))"
proof -
  have req: "isUserRequired p \<longleftrightarrow>
      p \<noteq> providers_Custom \<and> p \<noteq> providers_Airvpn \<and> p \<noteq> providers_VPNSecure"
    by (simp add: isUserRequired_def isCustom_def)
  have user: "validate_User p o' =
      (if isUserRequired p \<and> u = []
       then Return (Some (Errorf [] (Sentinel ErrOpenVPNUserIsEmpty) [])) else Return None)"
    using assms(2) by (simp add: validate_User_def deref_def)
  have pass: "validate_Password p o' =
      (if isUserRequired p \<and> (p \<noteq> providers_Ivpn \<or> \<not> ivpnAccountID_MatchString u) \<and> pw = []
       then Return (Some (Errorf [] (Sentinel ErrOpenVPNPasswordIsEmpty) [])) else Return None)"
    using assms(2,3)
    by (simp add: validate_Password_def passwordRequired_def deref_def and_then_def)
  have 1: "validate d p o' = Return (Some (Errorf [] (Sentinel ErrOpenVPNUserIsEmpty) [])) \<longleftrightarrow>
      isUserRequired p" if "u = []"
  proof
    assume "validate d p o' = Return (Some (Errorf [] (Sentinel ErrOpenVPNUserIsEmpty) []))"
    then have "validate_User p o' = Return (Some (Errorf [] (Sentinel ErrOpenVPNUserIsEmpty) []))"
      by (rule validate_User_origin) simp
    with user show "isUserRequired p" by (simp split: if_splits)
  next
    assume "isUserRequired p"
    with user that assms(1) show
      "validate d p o' = Return (Some (Errorf [] (Sentinel ErrOpenVPNUserIsEmpty) []))"
      by (simp add: validate_def)
  qed
  have 2: "validate d p o' = Return (Some (Errorf [] (Sentinel ErrOpenVPNPasswordIsEmpty) [])) \<longleftrightarrow>
      isUserRequired p \<and> (p \<noteq> providers_Ivpn \<or> \<not> ivpnAccountID_MatchString u)"
    if "pw = []" and ok: "validate_User p o' = Return None"
  proof
    assume "validate d p o' = Return (Some (Errorf [] (Sentinel ErrOpenVPNPasswordIsEmpty) []))"
    then have "validate_Password p o' =
        Return (Some (Errorf [] (Sentinel ErrOpenVPNPasswordIsEmpty) []))"
      by (rule validate_Password_origin) simp
    with pass show "isUserRequired p \<and> (p \<noteq> providers_Ivpn \<or> \<not> ivpnAccountID_MatchString u)"
      by (simp split: if_splits)
  next
    assume "isUserRequired p \<and> (p \<noteq> providers_Ivpn \<or> \<not> ivpnAccountID_MatchString u)"
    with pass that assms(1) show
      "validate d p o' = Return (Some (Errorf [] (Sentinel ErrOpenVPNPasswordIsEmpty) []))"
      by (simp add: validate_def)
  qed
  from 1 2 req show ?thesis by simp
qed

theorem validate_user_password_witness:
  "validate_Version deps_example empty_user_settings = Return None \<and>
   User empty_user_settings = Some [] \<and>
   validate deps_example ''mullvad'' empty_user_settings =
     Return (Some (Errorf [] (Sentinel ErrOpenVPNUserIsEmpty) [])) \<and>
   validate deps_example providers_Airvpn empty_user_settings \<noteq>
     Return (Some (Errorf [] (Sentinel ErrOpenVPNUserIsEmpty) [])) \<and>
   validate_Version deps_example no_password_settings = Return None \<and>
   validate_User ''ivpn'' no_password_settings = Return None \<and>
   Password no_password_settings = Some [] \<and>
   validate deps_example ''ivpn'' no_password_settings =
     Return (Some (Errorf [] (Sentinel ErrOpenVPNPasswordIsEmpty) [])) \<and>
   validate_Version deps_example ivpn_settings = Return None \<and>
   validate_User ''ivpn'' ivpn_settings = Return None \<and>
   Password ivpn_settings = Some [] \<and>
   ivpnAccountID_MatchString ''i-ab12-CD34-ef56'' \<and>
   validate deps_example ''ivpn'' ivpn_settings \<noteq>
     Return (Some (Errorf [] (Sentinel ErrOpenVPNPasswordIsEmpty) []))"
proof -
  have e: "validate_Version deps_example empty_user_settings = Return None"
    "User empty_user_settings = Some []" "Password empty_user_settings = Some ''m''"
    by (simp_all add: empty_user_settings_def settings_defs validate_Version_def IsOneOf_def)
  have n: "validate_Version deps_example no_password_settings = Return None"
    "User no_password_settings = Some ''bob''" "Password no_password_settings = Some []"
    "validate_User ''ivpn'' no_password_settings = Return None"
    by (simp_all add: no_password_settings_def settings_defs check_defs)
  have i: "validate_Version deps_example ivpn_settings = Return None"
    "User ivpn_settings = Some ''i-ab12-CD34-ef56''" "Password ivpn_settings = Some []"
    "validate_User ''ivpn'' ivpn_settings = Return None"
    by (simp_all add: ivpn_settings_def settings_defs check_defs)
  have p: "providers_Ivpn = ''ivpn''" "''mullvad'' \<noteq> providers_Custom"
    "''mullvad'' \<noteq> providers_Airvpn" "''mullvad'' \<noteq> providers_VPNSecure"
    "''ivpn'' \<noteq> providers_Custom" "''ivpn'' \<noteq> providers_Airvpn"
    "''ivpn'' \<noteq> providers_VPNSecure"
    by (simp_all add: providers_defs)
  from validate_user_password [OF e, of "''mullvad''"] p
  have 1: "validate deps_example ''mullvad'' empty_user_settings =
     Return (Some (Errorf [] (Sentinel ErrOpenVPNUserIsEmpty) []))" by simp
  from validate_user_password [OF e, of providers_Airvpn]
  have 2: "validate deps_example providers_Airvpn empty_user_settings \<noteq>
     Return (Some (Errorf [] (Sentinel ErrOpenVPNUserIsEmpty) []))" by simp
  from validate_user_password [OF n(1-3), of "''ivpn''"] n(4) p bob_no_match
  have 3: "validate deps_example ''ivpn'' no_password_settings =
     Return (Some (Errorf [] (Sentinel ErrOpenVPNPasswordIsEmpty) []))" by simp
  from validate_user_password [OF i(1-3), of "''ivpn''"] i(4) p ivpn_match
  have 4: "validate deps_example ''ivpn'' ivpn_settings \<noteq>
     Return (Some (Errorf [] (Sentinel ErrOpenVPNPasswordIsEmpty) []))" by simp
  from e n i 1 2 3 4 ivpn_match show ?thesis by simp
qed

text \<open>
  C6. For settings whose version, user, password and configuration file checks pass:
  with one of the providers Airvpn, Cyberghost, VPNSecure and VPNUnlimited an empty
  certificate makes \<open>validate\<close> fail with \<open>ErrMissingValue\<close> wrapped under
  \<open>client certificate: \<close>; with any provider a non-empty certificate that the base64
  decoder rejects makes it fail with the decoder's error under the same prefix; and an
  empty certificate with any other provider passes the certificate check.
\<close>

theorem validate_client_certificate:
  assumes "validate_Version d o' = Return None" and "validate_User p o' = Return None"
    and "validate_Password p o' = Return None" and "validate_ConfFile d p o' = Return None"
    and "Cert o' = Some c"
  shows
   "(p \<in> {providers_Airvpn, providers_Cyberghost, providers_VPNSecure, providers_VPNUnlimited} \<and>
     c = [] \<longrightarrow>
       validate d p o' =
         Return (Some (Errorf ''client certificate: '' (Errorf [] (Sentinel ErrMissingValue) []) []))) \<and>
    (c \<noteq> [] \<and> DecodeString d c = Some m \<longrightarrow>
       validate d p o' = Return (Some (Errorf ''client certificate: '' (External m) []))) \<and>
    (c = [] \<and>
     p \<notin> {providers_Airvpn, providers_Cyberghost, providers_VPNSecure, providers_VPNUnlimited} \<longrightarrow>
       validateOpenVPNClientCertificate d p c = None \<and> validate_Cert d p o' = Return None)"
  using assms
  by (simp add: validate_def validate_Cert_def validateOpenVPNClientCertificate_def
      deref_def wrapped_def)

theorem validate_client_certificate_witness:
  "validate_Version deps_example cyberghost_settings = Return None \<and>
   validate_User providers_Cyberghost cyberghost_settings = Return None \<and>
   validate_Password providers_Cyberghost cyberghost_settings = Return None \<and>
   validate_ConfFile deps_example providers_Cyberghost cyberghost_settings = Return None \<and>
   Cert cyberghost_settings = Some [] \<and>
   validate deps_example providers_Cyberghost cyberghost_settings =
     Return (Some (Errorf ''client certificate: '' (Errorf [] (Sentinel ErrMissingValue) []) [])) \<and>
   validate_Version deps_example bad_cert_settings = Return None \<and>
   validate_User providers_Mullvad bad_cert_settings = Return None \<and>
   validate_Password providers_Mullvad bad_cert_settings = Return None \<and>
   validate_ConfFile deps_example providers_Mullvad bad_cert_settings = Return None \<and>
   Cert bad_cert_settings = Some ''not base64!'' \<and>
   DecodeString deps_example ''not base64!'' = Some ''illegal base64 data'' \<and>
   validate deps_example providers_Mullvad bad_cert_settings =
     Return (Some (Errorf ''client certificate: '' (External ''illegal base64 data'') [])) \<and>
   Cert valid_settings = Some [] \<and>
   validate_Cert deps_example providers_Mullvad valid_settings = Return None"
proof -
  have c: "validate_Version deps_example cyberghost_settings = Return None"
    "validate_User providers_Cyberghost cyberghost_settings = Return None"
    "validate_Password providers_Cyberghost cyberghost_settings = Return None"
    "validate_ConfFile deps_example providers_Cyberghost cyberghost_settings = Return None"
    "Cert cyberghost_settings = Some []"
    by (simp_all add: cyberghost_settings_def settings_defs check_defs)
  have b: "validate_Version deps_example bad_cert_settings = Return None"
    "validate_User providers_Mullvad bad_cert_settings = Return None"
    "validate_Password providers_Mullvad bad_cert_settings = Return None"
    "validate_ConfFile deps_example providers_Mullvad bad_cert_settings = Return None"
    "Cert bad_cert_settings = Some ''not base64!''"
    by (simp_all add: bad_cert_settings_def valid_settings_def settings_defs check_defs)
  have v: "validate_Version deps_example valid_settings = Return None"
    "validate_User providers_Mullvad valid_settings = Return None"
    "validate_Password providers_Mullvad valid_settings = Return None"
    "validate_ConfFile deps_example providers_Mullvad valid_settings = Return None"
    "Cert valid_settings = Some []"
    by (simp_all add: valid_settings_def settings_defs check_defs)
  have m: "DecodeString deps_example ''not base64!'' = Some ''illegal base64 data''"
    by (simp add: deps_example_def base64_char_def alnum_def)
  have p: "providers_Mullvad \<notin> {providers_Airvpn, providers_Cyberghost, providers_VPNSecure,
      providers_VPNUnlimited}"
    by (simp add: providers_defs)
  from validate_client_certificate [OF c]
  have 1: "validate deps_example providers_Cyberghost cyberghost_settings =
     Return (Some (Errorf ''client certificate: '' (Errorf [] (Sentinel ErrMissingValue) []) []))"
    by simp
  from validate_client_certificate [OF b, of "''illegal base64 data''"] m
  have 2: "validate deps_example providers_Mullvad bad_cert_settings =
     Return (Some (Errorf ''client certificate: '' (External ''illegal base64 data'') []))"
    by simp
  from validate_client_certificate [OF v] p
  have 3: "validate_Cert deps_example providers_Mullvad valid_settings = Return None"
    by simp
  from c b v(5) m 1 2 3 show ?thesis by simp
qed

section \<open>Facts about toLinesNode\<close>









lemma appends_Some:
  "appends (Node v cs) (Return (Some l) # ls) = appends (Node v (cs @ [Node l []])) ls"
  by simp

lemma appends_if:
  "appends (Node v cs) (Return (if b then Some l else None) # ls) =
   appends (Node v (cs @ (if b then [Node l []] else []))) ls"
  by simp

lemma appends_Nil: "appends n [] = Return n"
  by simp

lemma if_Return: "(if b then Return x else Return y) = Return (if b then x else y)"
  by simp

lemma deref_Some: "deref (Some x) k = k x"
  by (simp add: deref_def)

lemma deref_None: "deref None k = NilDeref"
  by (simp add: deref_def)


lemma toLinesNode_rendered:
  assumes "User o' = Some u" and "Password o' = Some pw" and "ConfFile o' = Some cf"
    and "Auth o' = Some a" and "Cert o' = Some c" and "Key o' = Some k"
    and "EncryptedKey o' = Some ek" and "KeyPassphrase o' = Some kp"
    and "PIAEncPreset o' = Some e" and "MSSFix o' = Some m" and "Verbosity o' = Some v"
  shows "toLinesNode d o' =
     Return (Node ''OpenVPN settings:''
       ([Node (''OpenVPN version: '' @ Version o') [],
         Node (''User: '' @ ObfuscateKey d u) [],
         Node (''Password: '' @ ObfuscateKey d pw) []] @
        (if cf \<noteq> [] then [Node (''Custom configuration file: '' @ cf) []] else []) @
        (if len (Ciphers o') > 0
         then [Node (''Ciphers: '' @ show_strings (elems (Ciphers o'))) []] else []) @
        (if a \<noteq> [] then [Node (''Auth: '' @ a) []] else []) @
        (if c \<noteq> [] then [Node (''Client crt: '' @ ObfuscateKey d c) []] else []) @
        (if k \<noteq> [] then [Node (''Client key: '' @ ObfuscateKey d k) []] else []) @
        (if ek \<noteq> []
         then [Node (''Encrypted key: '' @ ObfuscateKey d ek @ '' (key passhrapse '' @
                     ObfuscateKey d kp @ '')'') []] else []) @
        (if e \<noteq> []
         then [Node (''Private Internet Access encryption preset: '' @ e) []] else []) @
        (if unat m > 0 then [Node (''MSS Fix: '' @ show_nat (unat m)) []] else []) @
        (if Interface o' \<noteq> [] then [Node (''Network interface: '' @ Interface o') []] else []) @
        [Node (''Run OpenVPN as: '' @ ProcessUser o') [],
         Node (''Verbosity level: '' @ show_int v) []] @
        (if len (Flags o') > 0
         then [Node (''Flags: '' @ show_strings (elems (Flags o'))) []] else [])))"
  unfolding toLinesNode_def gotree_New_def assms deref_Some if_Return
    appends_Some appends_if appends_Nil
  by (simp only: append_Nil append_assoc append_Cons)


lemma setDefaults_pointers:
  "User (setDefaults p o') \<noteq> None" "Password (setDefaults p o') \<noteq> None"
  "ConfFile (setDefaults p o') \<noteq> None" "Auth (setDefaults p o') \<noteq> None"
  "Cert (setDefaults p o') \<noteq> None" "Key (setDefaults p o') \<noteq> None"
  "EncryptedKey (setDefaults p o') \<noteq> None" "KeyPassphrase (setDefaults p o') \<noteq> None"
  "PIAEncPreset (setDefaults p o') \<noteq> None" "MSSFix (setDefaults p o') \<noteq> None"
  "Verbosity (setDefaults p o') \<noteq> None"
  by (simp_all add: setDefaults_def DefaultPointer_def)

lemma wrapped_not_NilDeref: "wrapped pre r \<noteq> NilDeref"
  by (cases r) (simp_all add: wrapped_def)

lemma validate_no_NilDeref:
  assumes "User o' \<noteq> None" and "Password o' \<noteq> None" and "ConfFile o' \<noteq> None"
    and "Cert o' \<noteq> None" and "Key o' \<noteq> None"
    and "EncryptedKey o' \<noteq> None" and "KeyPassphrase o' \<noteq> None"
    and "MSSFix o' \<noteq> None" and "Verbosity o' \<noteq> None"
  shows "validate d q o' \<noteq> NilDeref"
proof
  assume "validate d q o' = NilDeref"
  then have "NilDeref \<in> set [validate_Version d o', validate_User q o',
      validate_Password q o', validate_ConfFile d q o', validate_Cert d q o',
      validate_Key d q o', validate_EncryptedKey d q o', validate_KeyPassphrase o',
      validate_MSSFix o', validate_Interface d o', validate_Verbosity d o']"
    unfolding validate_def by (intro first_return_mem) auto
  moreover have "validate_Version d o' \<noteq> NilDeref"
    by (simp add: validate_Version_def split: option.splits)
  moreover have "validate_User q o' \<noteq> NilDeref"
    using assms(1) by (auto simp: validate_User_def deref_def split: if_splits)
  moreover have "validate_Password q o' \<noteq> NilDeref"
    using assms(1,2)
    by (auto simp: validate_Password_def passwordRequired_def deref_def and_then_def
        split: if_splits)
  moreover have "validate_ConfFile d q o' \<noteq> NilDeref"
    using assms(3) by (auto simp: validate_ConfFile_def deref_def wrapped_not_NilDeref)
  moreover have "validate_Cert d q o' \<noteq> NilDeref"
    using assms(4) by (auto simp: validate_Cert_def deref_def wrapped_not_NilDeref)
  moreover have "validate_Key d q o' \<noteq> NilDeref"
    using assms(5) by (auto simp: validate_Key_def deref_def wrapped_not_NilDeref)
  moreover have "validate_EncryptedKey d q o' \<noteq> NilDeref"
    using assms(6) by (auto simp: validate_EncryptedKey_def deref_def wrapped_not_NilDeref)
  moreover have "validate_KeyPassphrase o' \<noteq> NilDeref"
    using assms(6,7) by (auto simp: validate_KeyPassphrase_def deref_def split: if_splits)
  moreover have "validate_MSSFix o' \<noteq> NilDeref"
    using assms(8) by (auto simp: validate_MSSFix_def deref_def split: if_splits)
  moreover have "validate_Interface d o' \<noteq> NilDeref"
    by (simp add: validate_Interface_def)
  moreover have "validate_Verbosity d o' \<noteq> NilDeref"
    using assms(9) by (auto simp: validate_Verbosity_def deref_def split: if_splits)
  ultimately show False by auto
qed

lemma toLinesNode_no_NilDeref:
  assumes "User o' \<noteq> None" and "Password o' \<noteq> None" and "ConfFile o' \<noteq> None"
    and "Auth o' \<noteq> None" and "Cert o' \<noteq> None" and "Key o' \<noteq> None"
    and "EncryptedKey o' \<noteq> None" and "KeyPassphrase o' \<noteq> None"
    and "PIAEncPreset o' \<noteq> None" and "MSSFix o' \<noteq> None" and "Verbosity o' \<noteq> None"
  shows "toLinesNode d o' \<noteq> NilDeref"
proof -
  from assms obtain u pw cf a c k ek kp e m v where
    "User o' = Some u" "Password o' = Some pw" "ConfFile o' = Some cf"
    "Auth o' = Some a" "Cert o' = Some c" "Key o' = Some k"
    "EncryptedKey o' = Some ek" "KeyPassphrase o' = Some kp"
    "PIAEncPreset o' = Some e" "MSSFix o' = Some m" "Verbosity o' = Some v"
    by auto
  from toLinesNode_rendered [OF this] show ?thesis by simp
qed

lemma validate_zero_Version:
  "validate d q OpenVPN_zero =
     Return (Some (Errorf2 (Sentinel ErrOpenVPNVersionIsNotValid) '': ''
       (External (IsOneOf_Error d [] [openvpn_Openvpn25, openvpn_Openvpn26]))))"
  by (simp add: validate_def validate_Version_def IsOneOf_def OpenVPN_zero_def
      openvpn_Openvpn25_def openvpn_Openvpn26_def)

lemma validate_zero_with_Version:
  "validate d q (OpenVPN_zero \<lparr> Version := openvpn_Openvpn25 \<rparr>) = NilDeref"
  by (simp add: validate_def validate_Version_def IsOneOf_def OpenVPN_zero_def
      validate_User_def validate_Password_def passwordRequired_def validate_ConfFile_def
      deref_def and_then_def)

section \<open>The presenter\<close>







section \<open>Nil pointers\<close>

text \<open>
  C9, as amended. After \<open>setDefaults\<close> every pointer field is non-nil, so that neither
  \<open>validate\<close> nor \<open>toLinesNode\<close> dereferences a nil pointer on defaulted settings.
  On the zero value \<open>toLinesNode\<close> dereferences a nil pointer; \<open>validate\<close> does not:
  it returns the error of the version check, which reads no pointer, and it dereferences a
  nil pointer only once the version of the zero value is set to a valid one.
\<close>

theorem setDefaults_then_no_nil_dereference:
  "User (setDefaults p o') \<noteq> None \<and> Password (setDefaults p o') \<noteq> None \<and>
   ConfFile (setDefaults p o') \<noteq> None \<and> Auth (setDefaults p o') \<noteq> None \<and>
   Cert (setDefaults p o') \<noteq> None \<and> Key (setDefaults p o') \<noteq> None \<and>
   EncryptedKey (setDefaults p o') \<noteq> None \<and> KeyPassphrase (setDefaults p o') \<noteq> None \<and>
   PIAEncPreset (setDefaults p o') \<noteq> None \<and> MSSFix (setDefaults p o') \<noteq> None \<and>
   Verbosity (setDefaults p o') \<noteq> None \<and>
   validate d q (setDefaults p o') \<noteq> NilDeref \<and>
   toLinesNode d (setDefaults p o') \<noteq> NilDeref \<and>
   toLinesNode d OpenVPN_zero = NilDeref \<and>
   validate d q OpenVPN_zero =
     Return (Some (Errorf2 (Sentinel ErrOpenVPNVersionIsNotValid) '': ''
       (External (IsOneOf_Error d [] [openvpn_Openvpn25, openvpn_Openvpn26])))) \<and>
   validate d q (OpenVPN_zero \<lparr> Version := openvpn_Openvpn25 \<rparr>) = NilDeref"
proof -
  have z: "toLinesNode d OpenVPN_zero = NilDeref"
    by (simp add: toLinesNode_def OpenVPN_zero_def deref_def gotree_New_def)
  have v: "validate d q (setDefaults p o') \<noteq> NilDeref"
    by (rule validate_no_NilDeref) (rule setDefaults_pointers)+
  have t: "toLinesNode d (setDefaults p o') \<noteq> NilDeref"
    by (rule toLinesNode_no_NilDeref) (rule setDefaults_pointers)+
  from z v t setDefaults_pointers [of p o'] validate_zero_Version [of d q]
    validate_zero_with_Version [of d q]
  show ?thesis by simp
qed

text \<open>
  The claim C9 as stated fails for \<open>validate\<close>: on the zero value it returns the
  version error instead of dereferencing a nil pointer.
\<close>

theorem validate_zero_counterexample:
  "validate deps_example ''mullvad'' OpenVPN_zero \<noteq> NilDeref \<and>
   validate deps_example ''mullvad'' OpenVPN_zero =
     Return (Some (Errorf2 (Sentinel ErrOpenVPNVersionIsNotValid) '': ''
       (External (IsOneOf_Error deps_example [] [openvpn_Openvpn25, openvpn_Openvpn26]))))"
  by (simp add: validate_zero_Version)

section \<open>Reading the updater settings\<close>

text \<open>
  C10. \<open>Updater.read\<close> sets nine of the ten provider flags to true, \<open>Stdout\<close> and
  \<open>CLI\<close> to false and the DNS address to 1.1.1.1, takes the period from the
  environment and returns an error exactly when the environment does; it never assigns
  \<open>Privado\<close>, which keeps the value it had and is false after reading into the zero value.
\<close>

theorem read_leaves_Privado:
  "Privado (fst (read env settings)) = Privado settings \<and>
   \<not> Privado (fst (read env Updater_zero)) \<and>
   Cyberghost (fst (read env settings)) \<and> Mullvad (fst (read env settings)) \<and>
   Nordvpn (fst (read env settings)) \<and> PIA (fst (read env settings)) \<and>
   Purevpn (fst (read env settings)) \<and> Surfshark (fst (read env settings)) \<and>
   Torguard (fst (read env settings)) \<and> Vyprvpn (fst (read env settings)) \<and>
   Windscribe (fst (read env settings)) \<and>
   \<not> Stdout (fst (read env settings)) \<and> \<not> CLI (fst (read env settings)) \<and>
   DNSAddress (fst (read env settings)) = ''1.1.1.1'' \<and>
   Period (fst (read env settings)) = fst (env ''UPDATER_PERIOD'' ''0'') \<and>
   (snd (read env settings) = None) = (snd (env ''UPDATER_PERIOD'' ''0'') = None)"
  by (cases "env ''UPDATER_PERIOD'' ''0''")
     (auto simp: read_def Let_def Updater_zero_def split: option.splits)

end
